theory Spec2Isabelle
  imports Complex_Main "HOL-Library.Product_Lexorder"
begin

section \<open>Strings\<close>

text \<open>
  A Python \<open>str\<close> is a sequence of Unicode code points and \<open>len\<close> counts code points, so
  a string is modelled as a list of code point numbers. \<open>asc\<close> embeds an ASCII literal.
\<close>

type_synonym ustr = "nat list"

definition asc :: "string \<Rightarrow> ustr" where
  "asc s = map of_char s"

definition space :: nat where
  "space = 32"

text \<open>U+2026 HORIZONTAL ELLIPSIS, the single character appended by \<open>shorten\<close>.\<close>

definition ellipsis :: nat where
  "ellipsis = 8230"

text \<open>The three ASCII full stops appended by \<open>tweet\<close>.\<close>

definition dots :: ustr where
  "dots = [46, 46, 46]"

text \<open>Truthiness of an optional string: \<open>None\<close> and \<open>""\<close> are falsy.\<close>

fun truthy :: "ustr option \<Rightarrow> bool" where
  "truthy None = False"
| "truthy (Some s) = (s \<noteq> [])"

text \<open>
  The slice \<open>s[:k]\<close>: a negative bound counts from the end, and every bound is clamped
  to the string.
\<close>

definition slice_to :: "int \<Rightarrow> 'a list \<Rightarrow> 'a list" where
  "slice_to k s = (if 0 \<le> k then take (nat k) s else take (nat (int (length s) + k)) s)"

text \<open>
  \<open>s.rsplit(sep, 1)\<close> for a one-character separator: the string is split once, at the last
  occurrence of the separator; without an occurrence the result is the one-element list
  \<open>[s]\<close>.
\<close>

definition rsplit1 :: "'a \<Rightarrow> 'a list \<Rightarrow> 'a list list" where
  "rsplit1 sep s =
     (if sep \<in> set s
      then [rev (tl (dropWhile (\<lambda>c. c \<noteq> sep) (rev s))), rev (takeWhile (\<lambda>c. c \<noteq> sep) (rev s))]
      else [s])"

text \<open>\<open>sub in s\<close> on strings: \<open>sub\<close> occurs in \<open>s\<close> as a contiguous run.\<close>

fun starts_with :: "'a list \<Rightarrow> 'a list \<Rightarrow> bool" where
  "starts_with [] s = True"
| "starts_with (p # ps) [] = False"
| "starts_with (p # ps) (c # cs) = (p = c \<and> starts_with ps cs)"

fun contains :: "'a list \<Rightarrow> 'a list \<Rightarrow> bool" where
  "contains sub [] = (sub = [])"
| "contains sub (c # cs) = (starts_with sub (c # cs) \<or> contains sub cs)"

definition ends_with :: "'a list \<Rightarrow> 'a list \<Rightarrow> bool" where
  "ends_with suf s = starts_with (rev suf) (rev s)"

section \<open>Summary truncation\<close>

text \<open>
  \<open>shorten(text, max_len=180)\<close>. The argument is \<open>None\<close> when the summary is missing.
  \<open>rsplit(" ", 1)[0]\<close> reads the first element of a list that is never empty.
\<close>

definition shorten :: "ustr option \<Rightarrow> int \<Rightarrow> ustr" where
  "shorten text max_len =
     (case text of
        None \<Rightarrow> []
      | Some t \<Rightarrow>
          if t = [] then []
          else if int (length t) \<le> max_len then t
          else (case rsplit1 space (slice_to (max_len - 1) t) of
                  [] \<Rightarrow> [ellipsis]
                | h # _ \<Rightarrow> h @ [ellipsis]))"

section \<open>Publisher truncation\<close>

text \<open>
  The first step of \<open>tweet(text)\<close>: with \<open>max_len = 270\<close>, a longer text is replaced by
  \<open>text[:max_len - 3] + "..."\<close>.
\<close>

definition max_len_tweet :: int where
  "max_len_tweet = 270"

definition tweet_text :: "ustr \<Rightarrow> ustr" where
  "tweet_text text =
     (if int (length text) > max_len_tweet then slice_to (max_len_tweet - 3) text @ dots
      else text)"

text \<open>
  The property "the cut is at a space": the output is a prefix of the text followed by the
  ellipsis, and the character of the text right after that prefix is a space.
\<close>

definition cut_at_space :: "ustr \<Rightarrow> ustr \<Rightarrow> bool" where
  "cut_at_space t out =
     (out \<noteq> [] \<and> last out = ellipsis \<and> butlast out = take (length out - 1) t
      \<and> length out - 1 < length t \<and> t ! (length out - 1) = space)"

section \<open>Exceptions, events and runs\<close>

text \<open>
  The exceptions the program raises or meets. \<open>Forbidden\<close> is \<open>tweepy.errors.Forbidden\<close> with
  the text of \<open>str(e)\<close>; \<open>Exception\<close> stands for every other exception of the HTTP client
  or of the platform client.
\<close>

datatype exn =
    RuntimeError ustr
  | SystemExit ustr
  | IndexError
  | ValueError
  | Forbidden ustr
  | Exception ustr

text \<open>
  A value of a query parameter. \<open>PDate d\<close> is the ISO text of the date whose day number
  is \<open>d\<close>.
\<close>

datatype pval = PNone | PStr ustr | PInt int | PNum rat | PDate int

type_synonym params = "string \<rightharpoonup> pval"

text \<open>
  What a run does to the outside: a line printed, a GET sent to the metadata service, a
  post sent to the publishing platform.
\<close>

datatype event = Print ustr | HttpGet string params | CreateTweet ustr

text \<open>A run yields the events so far and either an exception or a value.\<close>

type_synonym 'a run = "event list \<times> (exn + 'a)"

definition and_then :: "'a run \<Rightarrow> ('a \<Rightarrow> 'b run) \<Rightarrow> 'b run" where
  "and_then m f =
     (case m of
        (t, Inl e) \<Rightarrow> (t, Inl e)
      | (t, Inr a) \<Rightarrow> (case f a of (t', r) \<Rightarrow> (t @ t', r)))"

definition pure_step :: "exn + 'a \<Rightarrow> 'a run" where
  "pure_step r = ([], r)"

definition py_print :: "ustr \<Rightarrow> unit run" where
  "py_print s = ([Print s], Inr ())"

fun tweets_of :: "event list \<Rightarrow> ustr list" where
  "tweets_of [] = []"
| "tweets_of (CreateTweet x # es) = x # tweets_of es"
| "tweets_of (e # es) = tweets_of es"

section \<open>Candidates and replies\<close>

text \<open>
  A candidate is a JSON object of the metadata service. Its fields have the types the
  service gives them; \<open>None\<close> is a key that is absent (for \<open>poster_path\<close> and \<open>overview\<close>
  also a JSON null, which the code treats alike). \<open>title\<close> and \<open>id\<close> are read with
  \<open>movie[...]\<close> and are always there. Numbers are the exact values of the JSON numbers.
\<close>

record movie =
  movie_id :: int
  title :: ustr
  release_date :: "ustr option"
  vote_average :: "rat option"
  vote_count :: "int option"
  popularity :: "rat option"
  poster_path :: "ustr option"
  overview :: "ustr option"

record response =
  json_results :: "movie list option"
  json_total_pages :: "int option"

text \<open>\<open>d.get(key, default)\<close> on a key that may be absent.\<close>

definition get_or :: "'a option \<Rightarrow> 'a \<Rightarrow> 'a" where
  "get_or v d = (case v of None \<Rightarrow> d | Some x \<Rightarrow> x)"

text \<open>\<open>d.get(key) or default\<close> on a list: an absent and an empty list give the default.\<close>

definition or_else :: "'a list option \<Rightarrow> 'a list \<Rightarrow> 'a list" where
  "or_else v d = (case v of None \<Rightarrow> d | Some xs \<Rightarrow> if xs = [] then d else xs)"

section \<open>The deterministic best-of policy\<close>

text \<open>
  \<open>xs.sort(key=k, reverse=True)\<close> is a stable sort in descending order of the key: the list
  is reversed, sorted stably in ascending order and reversed again.
\<close>

definition sort_reverse :: "('a \<Rightarrow> 'k::linorder) \<Rightarrow> 'a list \<Rightarrow> 'a list" where
  "sort_reverse k xs = rev (sort_key k (rev xs))"

text \<open>The sort key of line 59, a pair compared lexicographically.\<close>

definition rank_key :: "movie \<Rightarrow> rat \<times> rat" where
  "rank_key r = (get_or (vote_average r) 0, get_or (popularity r) 0)"

definition has_poster :: "movie \<Rightarrow> bool" where
  "has_poster r = truthy (poster_path r)"

text \<open>
  The condition of the first filter (lines 50 to 53), and the value of \<open>filtered\<close> after
  lines 50 to 55 of \<open>pick_best_result\<close>.
\<close>

definition qualifies :: "int \<Rightarrow> movie \<Rightarrow> bool" where
  "qualifies min_vote_count r = (has_poster r \<and> get_or (vote_count r) 0 \<ge> min_vote_count)"

definition surviving :: "movie list \<Rightarrow> int \<Rightarrow> movie list" where
  "surviving results min_vote_count =
     (let filtered = filter (qualifies min_vote_count) results
      in if filtered = []
         then (let posters = filter has_poster results
               in if posters = [] then results else posters)
         else filtered)"

text \<open>
  \<open>pick_best_result(results, min_vote_count=50)\<close>; \<open>None\<close> is Python's \<open>None\<close>.
  \<open>filtered[0]\<close> raises IndexError on an empty list.
\<close>

definition pick_best_result :: "movie list \<Rightarrow> int \<Rightarrow> exn + movie option" where
  "pick_best_result results min_vote_count =
     (let filtered = surviving results min_vote_count
      in if filtered = [] then Inr None
         else (case sort_reverse rank_key filtered of
                 [] \<Rightarrow> Inl IndexError
               | best # _ \<Rightarrow> Inr (Some best)))"

text \<open>
  Sample candidates. \<open>test_movie\<close> is the candidate of the scenario; its rating is the
  double nearest to 8.2, which is 4616189618054758 / 2^49.
\<close>

definition float_8_2 :: rat where
  "float_8_2 = 4616189618054758 / 562949953421312"

definition test_movie :: movie where
  "test_movie =
     \<lparr>movie_id = 1, title = asc ''Test Movie'', release_date = Some (asc ''2024-03-15''),
      vote_average = Some float_8_2, vote_count = Some 500,
      popularity = None, poster_path = Some (asc ''/x.jpg''), overview = None\<rparr>"

definition movie_twin :: movie where
  "movie_twin = test_movie\<lparr>movie_id := 6, title := asc ''Twin''\<rparr>"

definition movie_low :: movie where
  "movie_low =
     \<lparr>movie_id = 2, title = asc ''Low'', release_date = None,
      vote_average = Some (71 / 10), vote_count = Some 900,
      popularity = Some 99, poster_path = Some (asc ''/b.jpg''), overview = None\<rparr>"

definition movie_bare :: movie where
  "movie_bare =
     \<lparr>movie_id = 3, title = asc ''Bare'', release_date = None,
      vote_average = None, vote_count = None,
      popularity = None, poster_path = None, overview = None\<rparr>"

definition movie_noposter :: movie where
  "movie_noposter =
     \<lparr>movie_id = 4, title = asc ''No poster'', release_date = None,
      vote_average = Some (95 / 10), vote_count = Some 1000,
      popularity = Some 50, poster_path = None, overview = None\<rparr>"

definition movie_fewvotes :: movie where
  "movie_fewvotes =
     \<lparr>movie_id = 5, title = asc ''Few votes'', release_date = None,
      vote_average = Some (99 / 10), vote_count = Some 10,
      popularity = Some 1, poster_path = Some (asc ''/e.jpg''), overview = None\<rparr>"

definition sample_results :: "movie list" where
  "sample_results = [movie_noposter, movie_low, test_movie, movie_fewvotes, movie_twin]"

section \<open>Formatting\<close>

text \<open>\<open>str(n)\<close> of an integer, in decimal.\<close>

fun str_nat :: "nat \<Rightarrow> ustr" where
  "str_nat n = (if n < 10 then [48 + n] else str_nat (n div 10) @ [48 + n mod 10])"

declare str_nat.simps [simp del]

definition str_int :: "int \<Rightarrow> ustr" where
  "str_int i = (if i < 0 then 45 # str_nat (nat (- i)) else str_nat (nat i))"

text \<open>
  The format \<open>:.1f\<close>: the number is rounded to the nearest tenth, a tie going to the even
  tenth, and written with one digit after the point.
\<close>

definition round_half_even :: "rat \<Rightarrow> int" where
  "round_half_even x =
     (let f = \<lfloor>x\<rfloor>; d = x - of_int f
      in if d < 1 / 2 then f
         else if 1 / 2 < d then f + 1
         else if even f then f else f + 1)"

definition format_1f :: "rat \<Rightarrow> ustr" where
  "format_1f x =
     (let t = round_half_even (\<bar>x\<bar> * 10)
      in (if x < 0 then [45] else []) @ str_nat (nat (t div 10)) @ [46] @ str_nat (nat (t mod 10)))"

text \<open>An optional string inside an f-string: \<open>None\<close> prints as \<open>None\<close>.\<close>

definition str_opt :: "ustr option \<Rightarrow> ustr" where
  "str_opt v = (case v of None \<Rightarrow> asc ''None'' | Some s \<Rightarrow> s)"

fun join :: "'a list \<Rightarrow> 'a list list \<Rightarrow> 'a list" where
  "join sep [] = []"
| "join sep [x] = x"
| "join sep (x # y # ys) = x @ sep @ join sep (y # ys)"

text \<open>
  \<open>s.lower()\<close>. The ASCII capitals go to their small letters; U+0130 goes to \<open>i\<close> followed
  by U+0307 and U+212A to \<open>k\<close>. Every other code point is kept: its lower case holds no
  ASCII letter, which is all that the test of \<open>tweet\<close> reads.
\<close>

definition lower_cp :: "nat \<Rightarrow> ustr" where
  "lower_cp c =
     (if 65 \<le> c \<and> c \<le> 90 then [c + 32]
      else if c = 304 then [105, 775]
      else if c = 8490 then [107]
      else [c])"

definition lower :: "ustr \<Rightarrow> ustr" where
  "lower s = concat (map lower_cp s)"

section \<open>The outside world\<close>

text \<open>
  Everything a run reads from outside: the environment variables, the command line,
  today's date as a day number, the reply of the metadata service to a GET (the parsed
  JSON, or the exception of the request), the reply of the platform to a post (the text
  of the response, or the exception), and the two raw random draws of a run.
\<close>

record world =
  environ :: "string \<Rightarrow> ustr option"
  argv :: "ustr list"
  today :: int
  http_get :: "string \<Rightarrow> params \<Rightarrow> exn + response"
  create_tweet :: "ustr \<Rightarrow> exn + ustr"
  rand1 :: nat
  rand2 :: nat

definition TMDB_API_KEY :: "world \<Rightarrow> ustr option" where
  "TMDB_API_KEY w = environ w ''TMDB_API_KEY''"

definition TMDB_DEFAULT_REGION :: "world \<Rightarrow> ustr" where
  "TMDB_DEFAULT_REGION w = get_or (environ w ''TMDB_DEFAULT_REGION'') (asc ''TR'')"

definition X_BEARER_TOKEN :: "world \<Rightarrow> ustr option" where
  "X_BEARER_TOKEN w = environ w ''X_BEARER_TOKEN''"

definition X_API_KEY :: "world \<Rightarrow> ustr option" where
  "X_API_KEY w = environ w ''X_API_KEY''"

definition X_API_SECRET :: "world \<Rightarrow> ustr option" where
  "X_API_SECRET w = environ w ''X_API_SECRET''"

definition X_ACCESS_TOKEN :: "world \<Rightarrow> ustr option" where
  "X_ACCESS_TOKEN w = environ w ''X_ACCESS_TOKEN''"

definition X_ACCESS_SECRET :: "world \<Rightarrow> ustr option" where
  "X_ACCESS_SECRET w = environ w ''X_ACCESS_SECRET''"

definition TMDB_BASE_URL :: string where
  "TMDB_BASE_URL = ''https://api.themoviedb.org/3''"

definition TMDB_IMAGE_BASE :: ustr where
  "TMDB_IMAGE_BASE = asc ''https://image.tmdb.org/t/p/w500''"

text \<open>
  \<open>random.randint(a, b)\<close> and \<open>random.choice(seq)\<close>, as functions of the raw draw \<open>u\<close>:
  every value that Python can return is the value for some \<open>u\<close>. An empty range is a
  ValueError, an empty sequence an IndexError.
\<close>

definition random_randint :: "nat \<Rightarrow> int \<Rightarrow> int \<Rightarrow> exn + int" where
  "random_randint u a b = (if b < a then Inl ValueError else Inr (a + int u mod (b - a + 1)))"

definition random_choice :: "nat \<Rightarrow> 'a list \<Rightarrow> exn + 'a" where
  "random_choice u xs = (if xs = [] then Inl IndexError else Inr (xs ! (u mod length xs)))"

section \<open>Configuration check\<close>

text \<open>\<open>ensure_env()\<close>, lines 24 to 33; the result is the exception raised, if any.\<close>

definition missing_env :: "world \<Rightarrow> ustr list" where
  "missing_env w =
     (let missing = [];
          missing = (if \<not> truthy (TMDB_API_KEY w) then missing @ [asc ''TMDB_API_KEY'']
                     else missing);
          missing = (if \<not> (truthy (X_BEARER_TOKEN w) \<and> truthy (X_API_KEY w)
                             \<and> truthy (X_API_SECRET w) \<and> truthy (X_ACCESS_TOKEN w)
                             \<and> truthy (X_ACCESS_SECRET w))
                     then missing @ [asc ''X_BEARER_TOKEN'', asc ''X_API_KEY'', asc ''X_API_SECRET'',
                                     asc ''X_ACCESS_TOKEN'', asc ''X_ACCESS_SECRET'']
                     else missing)
      in missing)"

definition ensure_env :: "world \<Rightarrow> exn + unit" where
  "ensure_env w =
     (let missing = missing_env w
      in if missing \<noteq> []
         then Inl (RuntimeError
                (asc ''Eksik environment de'' @ [287] @ asc ''i'' @ [351] @ asc ''kenleri: ''
                 @ join (asc '', '') missing))
         else Inr ())"

text \<open>
  The names of the six required variables, and the value the program reads for a name.
\<close>

definition required_env :: "string list" where
  "required_env =
     [''TMDB_API_KEY'', ''X_BEARER_TOKEN'', ''X_API_KEY'', ''X_API_SECRET'',
      ''X_ACCESS_TOKEN'', ''X_ACCESS_SECRET'']"

section \<open>The metadata service\<close>

text \<open>
  \<open>tmdb_get(path, params)\<close>: the key is stored in the dictionary, the GET is sent, and
  the reply is the parsed JSON or the exception of \<open>requests.get\<close>, \<open>raise_for_status\<close> or
  \<open>json\<close>. Every call of the program passes a dictionary. A dictionary of parameters is a
  map, so the order of its keys is not modelled.
\<close>

definition pstr_opt :: "ustr option \<Rightarrow> pval" where
  "pstr_opt v = (case v of None \<Rightarrow> PNone | Some s \<Rightarrow> PStr s)"

definition tmdb_get :: "world \<Rightarrow> string \<Rightarrow> params \<Rightarrow> response run" where
  "tmdb_get w path params =
     (let params = params(''api_key'' \<mapsto> pstr_opt (TMDB_API_KEY w));
          url = TMDB_BASE_URL @ path
      in ([HttpGet url params], http_get w url params))"

definition build_poster_url :: "ustr option \<Rightarrow> ustr option" where
  "build_poster_url poster =
     (case poster of
        None \<Rightarrow> None
      | Some s \<Rightarrow> if s = [] then None else Some (TMDB_IMAGE_BASE @ s))"

section \<open>The Publisher\<close>

text \<open>
  \<open>tweet(text)\<close>, lines 77 to 106. The post is sent with the truncated text. A Forbidden
  whose lower-cased message contains \<open>duplicate\<close> prints one line, another Forbidden prints
  two lines, and any other exception leaves the function.
\<close>

definition is_duplicate :: "ustr \<Rightarrow> bool" where
  "is_duplicate e = contains (asc ''duplicate'') (lower e)"

definition tweet :: "world \<Rightarrow> ustr \<Rightarrow> unit run" where
  "tweet w text =
     (let text = tweet_text text
      in case create_tweet w text of
           Inr resp \<Rightarrow>
             ([CreateTweet text,
               Print (asc ''Tweet g'' @ [246] @ asc ''nderildi:'' @ [32] @ resp)], Inr ())
         | Inl err \<Rightarrow>
             (case err of
                Forbidden e \<Rightarrow>
                  if is_duplicate e
                  then ([CreateTweet text,
                         Print (asc ''Ayn'' @ [305] @ asc '' i'' @ [231]
                                @ asc ''erikten zaten tweet at'' @ [305] @ asc ''lm'' @ [305, 351]
                                @ asc '', atl'' @ [305] @ asc ''yorum.'')], Inr ())
                  else ([CreateTweet text,
                         Print (asc ''403 Forbidden - Twitter bu tweet'' @ [39]
                                @ asc ''e izin vermedi, atl'' @ [305] @ asc ''yorum.''),
                         Print (asc ''Hata detay'' @ [305] @ asc '':'' @ [32] @ e)], Inr ())
              | _ \<Rightarrow> ([CreateTweet text], Inl err)))"

section \<open>The Formatter\<close>

text \<open>
  The f-string of each mode, as a function of the selected candidate. Code points:
  10 is the line feed, 8211 the en dash, 11088 the star; the first code point of each text
  is the emoji of the mode.
\<close>

definition mode_1_text :: "movie \<Rightarrow> ustr" where
  "mode_1_text movie =
     [127916] @ asc '' Bug'' @ [252] @ asc ''n T'' @ [252] @ asc ''rkiye'' @ [39] @ asc ''de en pop'' @ [252] @ asc ''ler film:'' @ [10]
     @ title movie @ asc '' ('' @ slice_to 4 (get_or (release_date movie) []) @ asc '') '' @ [8211] @ asc '' '' @ [11088] @ asc '' ''
     @ format_1f (get_or (vote_average movie) 0) @ [10, 10]
     @ shorten (overview movie) 150 @ [10, 10]
     @ asc ''Daha fazla: '' @ asc ''https://tmdb.org/movie/'' @ str_int (movie_id movie) @ [10]
     @ asc ''#film #sinema #tmdb''"

definition mode_2_text :: "movie \<Rightarrow> ustr" where
  "mode_2_text movie =
     [127757] @ asc '' Bug'' @ [252] @ asc ''n d'' @ [252] @ asc ''nyada en pop'' @ [252] @ asc ''ler film:'' @ [10]
     @ title movie @ asc '' ('' @ slice_to 4 (get_or (release_date movie) []) @ asc '') '' @ [8211] @ asc '' '' @ [11088] @ asc '' ''
     @ format_1f (get_or (vote_average movie) 0) @ [10, 10]
     @ shorten (overview movie) 150 @ [10, 10]
     @ asc ''Detaylar: '' @ asc ''https://www.themoviedb.org/movie/'' @ str_int (movie_id movie) @ [10]
     @ asc ''#film #sinema #tmdb''"

definition mode_3_text :: "movie \<Rightarrow> ustr" where
  "mode_3_text movie =
     [127903] @ asc '' Son g'' @ [252] @ asc ''nlerde vizyona gelen bir film:'' @ [10]
     @ title movie @ asc '' ('' @ get_or (release_date movie) [] @ asc '') '' @ [8211] @ asc '' '' @ [11088] @ asc '' ''
     @ format_1f (get_or (vote_average movie) 0) @ [10, 10]
     @ shorten (overview movie) 150 @ [10, 10]
     @ asc ''Detaylar: '' @ asc ''https://www.themoviedb.org/movie/'' @ str_int (movie_id movie) @ [10]
     @ asc ''#yenifilm #film'' @ [246] @ asc ''nerisi #tmdb''"

definition mode_4_text :: "movie \<Rightarrow> ustr" where
  "mode_4_text movie =
     [128200] @ asc '' Haftan'' @ [305] @ asc ''n en y'' @ [252] @ asc ''ksek puanl'' @ [305] @ asc '' yeni filmi:'' @ [10]
     @ title movie @ asc '' ('' @ slice_to 4 (get_or (release_date movie) []) @ asc '') '' @ [8211] @ asc '' '' @ [11088] @ asc '' ''
     @ format_1f (get_or (vote_average movie) 0) @ [10, 10]
     @ shorten (overview movie) 150 @ [10, 10]
     @ asc ''Detay: '' @ asc ''https://www.themoviedb.org/movie/'' @ str_int (movie_id movie) @ [10]
     @ asc ''#film'' @ [246] @ asc ''nerisi #tmdb''"

definition mode_5_text :: "movie \<Rightarrow> ustr" where
  "mode_5_text movie =
     [127922] @ asc '' Bug'' @ [252] @ asc ''n'' @ [252] @ asc ''n rastgele kaliteli filmi:'' @ [10]
     @ title movie @ asc '' ('' @ slice_to 4 (get_or (release_date movie) []) @ asc '') '' @ [8211] @ asc '' '' @ [11088] @ asc '' ''
     @ format_1f (get_or (vote_average movie) 0) @ [10, 10]
     @ shorten (overview movie) 160 @ [10, 10]
     @ asc ''Listeye ekle: '' @ asc ''https://www.themoviedb.org/movie/'' @ str_int (movie_id movie) @ [10]
     @ asc ''#film'' @ [246] @ asc ''nerisi #random #tmdb''"

definition mode_8_text :: "movie \<Rightarrow> ustr" where
  "mode_8_text movie =
     [128250] @ asc '' T'' @ [252] @ asc ''rkiye'' @ [39] @ asc ''de Netflix'' @ [39] @ asc ''te en pop'' @ [252] @ asc ''ler film:'' @ [10]
     @ title movie @ asc '' ('' @ slice_to 4 (get_or (release_date movie) []) @ asc '') '' @ [8211] @ asc '' '' @ [11088] @ asc '' ''
     @ format_1f (get_or (vote_average movie) 0) @ [10, 10]
     @ shorten (overview movie) 150 @ [10, 10]
     @ asc ''TMDB sayfas'' @ [305] @ asc '': '' @ asc ''https://www.themoviedb.org/movie/'' @ str_int (movie_id movie) @ [10]
     @ asc ''#netflix #film #tmdb''"

definition mode_10_text :: "movie \<Rightarrow> ustr" where
  "mode_10_text movie =
     [128176] @ asc '' Son haftalar'' @ [305] @ asc ''n gi'' @ [351] @ asc ''e '' @ [351] @ asc ''ampiyonu k'' @ [305] @ asc ''vam'' @ [305] @ asc ''nda film:'' @ [10]
     @ title movie @ asc '' ('' @ slice_to 4 (get_or (release_date movie) []) @ asc '') '' @ [8211] @ asc '' '' @ [11088] @ asc '' ''
     @ format_1f (get_or (vote_average movie) 0) @ [10, 10]
     @ shorten (overview movie) 150 @ [10, 10]
     @ asc ''Daha fazla: '' @ asc ''https://www.themoviedb.org/movie/'' @ str_int (movie_id movie) @ [10]
     @ asc ''#boxoffice #film #tmdb''"

definition mode_13_text :: "movie \<Rightarrow> ustr" where
  "mode_13_text movie =
     [128640] @ asc '' Son 24 saatte trend olan film:'' @ [10]
     @ title movie @ asc '' ('' @ slice_to 4 (get_or (release_date movie) []) @ asc '') '' @ [8211] @ asc '' '' @ [11088] @ asc '' ''
     @ format_1f (get_or (vote_average movie) 0) @ [10, 10]
     @ shorten (overview movie) 150 @ [10, 10]
     @ asc ''TMDB: '' @ asc ''https://www.themoviedb.org/movie/'' @ str_int (movie_id movie) @ [10]
     @ asc ''#trending #film #tmdb''"

definition mode_14_text :: "movie \<Rightarrow> ustr" where
  "mode_14_text movie =
     [128444] @ asc '' Bug'' @ [252] @ asc ''n'' @ [252] @ asc ''n poster se'' @ [231] @ asc ''imi:'' @ [10]
     @ title movie @ asc '' ('' @ slice_to 4 (get_or (release_date movie) []) @ asc '')'' @ [10, 10]
     @ asc ''Poster: '' @ str_opt (build_poster_url (poster_path movie)) @ [10]
     @ asc ''Detay: '' @ asc ''https://www.themoviedb.org/movie/'' @ str_int (movie_id movie) @ [10]
     @ asc ''#poster #film #tmdb''"

definition mode_15_text :: "movie \<Rightarrow> ustr" where
  "mode_15_text movie =
     [127481, 127479] @ asc '' Bug'' @ [252] @ asc ''n en pop'' @ [252] @ asc ''ler T'' @ [252] @ asc ''rk filmi:'' @ [10]
     @ title movie @ asc '' ('' @ slice_to 4 (get_or (release_date movie) []) @ asc '') '' @ [8211] @ asc '' '' @ [11088] @ asc '' ''
     @ format_1f (get_or (vote_average movie) 0) @ [10, 10]
     @ shorten (overview movie) 150 @ [10, 10]
     @ asc ''Detay: '' @ asc ''https://www.themoviedb.org/movie/'' @ str_int (movie_id movie) @ [10]
     @ asc ''#yerlifilm #turkiye #tmdb''"

definition mode_16_text :: "movie \<Rightarrow> ustr" where
  "mode_16_text movie =
     [127902] @ asc '' Bug'' @ [252] @ asc ''n'' @ [252] @ asc ''n klasik filmi:'' @ [10]
     @ title movie @ asc '' ('' @ slice_to 4 (get_or (release_date movie) []) @ asc '') '' @ [8211] @ asc '' '' @ [11088] @ asc '' ''
     @ format_1f (get_or (vote_average movie) 0) @ [10, 10]
     @ shorten (overview movie) 160 @ [10, 10]
     @ asc ''Koleksiyona ekle: '' @ asc ''https://www.themoviedb.org/movie/'' @ str_int (movie_id movie) @ [10]
     @ asc ''#klasik #film #tmdb''"

definition mode_17_text :: "movie \<Rightarrow> ustr" where
  "mode_17_text movie =
     [128142] @ asc '' Bug'' @ [252] @ asc ''n'' @ [252] @ asc ''n gizli m'' @ [252] @ asc ''cevher filmi:'' @ [10]
     @ title movie @ asc '' ('' @ slice_to 4 (get_or (release_date movie) []) @ asc '') '' @ [8211] @ asc '' '' @ [11088] @ asc '' ''
     @ format_1f (get_or (vote_average movie) 0) @ [10, 10]
     @ shorten (overview movie) 160 @ [10, 10]
     @ asc ''Ke'' @ [351] @ asc ''fet: '' @ asc ''https://www.themoviedb.org/movie/'' @ str_int (movie_id movie) @ [10]
     @ asc ''#gizlifilm #film'' @ [246] @ asc ''nerisi #tmdb''"

section \<open>The modes\<close>

text \<open>
  Each mode follows its function of the source statement by statement. \<open>and_then\<close> runs
  the next statement only when the one before raised nothing.
\<close>

definition mode_1_turkey_popular_today :: "world \<Rightarrow> unit run" where
  "mode_1_turkey_popular_today w =
     and_then (tmdb_get w ''/movie/popular''
        [''language'' \<mapsto> PStr (asc ''tr-TR''),
         ''region'' \<mapsto> PStr (TMDB_DEFAULT_REGION w), ''page'' \<mapsto> PInt 1])
     (\<lambda>data. and_then (pure_step (pick_best_result (get_or (json_results data) []) 50))
     (\<lambda>movie. case movie of
        None \<Rightarrow> py_print (asc ''Film bulunamad'' @ [305] @ asc ''.'')
      | Some m \<Rightarrow> tweet w (mode_1_text m)))"

definition mode_2_world_popular_today :: "world \<Rightarrow> unit run" where
  "mode_2_world_popular_today w =
     and_then (tmdb_get w ''/movie/popular''
        [''language'' \<mapsto> PStr (asc ''tr-TR''), ''page'' \<mapsto> PInt 1])
     (\<lambda>data. and_then (pure_step (pick_best_result (get_or (json_results data) []) 50))
     (\<lambda>movie. case movie of
        None \<Rightarrow> py_print (asc ''Film bulunamad'' @ [305] @ asc ''.'')
      | Some m \<Rightarrow> tweet w (mode_2_text m)))"

definition mode_3_new_release_today :: "world \<Rightarrow> unit run" where
  "mode_3_new_release_today w =
     (let start = today w - 7
      in and_then (tmdb_get w ''/discover/movie''
           [''language'' \<mapsto> PStr (asc ''tr-TR''),
            ''region'' \<mapsto> PStr (TMDB_DEFAULT_REGION w),
            ''sort_by'' \<mapsto> PStr (asc ''popularity.desc''),
            ''primary_release_date.gte'' \<mapsto> PDate start,
            ''primary_release_date.lte'' \<mapsto> PDate (today w),
            ''page'' \<mapsto> PInt 1])
         (\<lambda>data. and_then (pure_step (pick_best_result (get_or (json_results data) []) 1))
         (\<lambda>movie. case movie of
            Some m \<Rightarrow> tweet w (mode_3_text m)
          | None \<Rightarrow>
              and_then (py_print (asc ''Son 7 g'' @ [252] @ asc ''nde yeni film bulunamad'' @ [305]
                          @ asc '', trending'' @ [39] @ asc ''e d'' @ [252, 351, 252] @ asc ''yorum.''))
              (\<lambda>_. and_then (tmdb_get w ''/trending/movie/day''
                        [''language'' \<mapsto> PStr (asc ''tr-TR'')])
              (\<lambda>trend_data.
                 and_then (pure_step (pick_best_result (get_or (json_results trend_data) []) 1))
              (\<lambda>movie. case movie of
                 None \<Rightarrow> py_print (asc ''Trending'' @ [39] @ asc ''de de film bulunamad'' @ [305]
                            @ asc '', tweet atlamay'' @ [305] @ asc '' tercih ettim.'')
               | Some m \<Rightarrow> tweet w (mode_3_text m)))))))"

definition mode_4_week_top_rated :: "world \<Rightarrow> unit run" where
  "mode_4_week_top_rated w =
     and_then (tmdb_get w ''/discover/movie''
        [''language'' \<mapsto> PStr (asc ''en-US''),
         ''sort_by'' \<mapsto> PStr (asc ''vote_average.desc''),
         ''vote_count.gte'' \<mapsto> PInt 100,
         ''primary_release_date.gte'' \<mapsto> PDate (today w - 7),
         ''primary_release_date.lte'' \<mapsto> PDate (today w),
         ''page'' \<mapsto> PInt 1])
     (\<lambda>data. and_then (pure_step (pick_best_result (get_or (json_results data) []) 100))
     (\<lambda>movie. case movie of
        None \<Rightarrow> py_print (asc ''Film bulunamad'' @ [305] @ asc ''.'')
      | Some m \<Rightarrow> tweet w (mode_4_text m)))"

text \<open>
  Lines 264 and 265 (and 458, 459 and 518, 519): the page count of the first reply is capped
  by the ceiling of the mode, and the page is drawn between 1 and that count or 1.
\<close>

definition random_page :: "nat \<Rightarrow> response \<Rightarrow> int \<Rightarrow> exn + int" where
  "random_page u first ceiling_pages =
     (let pages = min (get_or (json_total_pages first) 1) ceiling_pages
      in random_randint u 1 (max pages 1))"

text \<open>
  The randomized-quality policy of modes 5 and 16: the first query, the random page, the
  second query, and one item drawn from the page (or from the first page when the random
  page is empty).
\<close>

definition random_quality ::
  "world \<Rightarrow> params \<Rightarrow> int \<Rightarrow> ustr \<Rightarrow> (movie \<Rightarrow> ustr) \<Rightarrow> unit run" where
  "random_quality w base_params ceiling_pages none_found render =
     and_then (tmdb_get w ''/discover/movie'' base_params)
     (\<lambda>first. and_then (pure_step (random_page (rand1 w) first ceiling_pages))
     (\<lambda>page. and_then (tmdb_get w ''/discover/movie'' (base_params(''page'' \<mapsto> PInt page)))
     (\<lambda>data.
        let results = or_else (json_results data) (or_else (json_results first) [])
        in if results = [] then py_print none_found
           else and_then (pure_step (random_choice (rand2 w) results))
                (\<lambda>movie. tweet w (render movie)))))"

definition mode_5_random_quality :: "world \<Rightarrow> unit run" where
  "mode_5_random_quality w =
     random_quality w
       [''language'' \<mapsto> PStr (asc ''tr-TR''),
        ''sort_by'' \<mapsto> PStr (asc ''popularity.desc''),
        ''vote_average.gte'' \<mapsto> PNum 7.5,
        ''vote_count.gte'' \<mapsto> PInt 300]
       50
       (asc ''Rastgele kaliteli film bulunamad'' @ [305] @ asc ''.'')
       mode_5_text"

definition mode_8_netflix_tr_popular :: "world \<Rightarrow> unit run" where
  "mode_8_netflix_tr_popular w =
     and_then (tmdb_get w ''/discover/movie''
        [''language'' \<mapsto> PStr (asc ''tr-TR''),
         ''sort_by'' \<mapsto> PStr (asc ''popularity.desc''),
         ''with_watch_providers'' \<mapsto> PInt 8,
         ''watch_region'' \<mapsto> PStr (TMDB_DEFAULT_REGION w),
         ''page'' \<mapsto> PInt 1])
     (\<lambda>data. and_then (pure_step (pick_best_result (get_or (json_results data) []) 20))
     (\<lambda>movie. case movie of
        None \<Rightarrow> py_print (asc ''Netflix filmi bulunamad'' @ [305] @ asc ''.'')
      | Some m \<Rightarrow> tweet w (mode_8_text m)))"

definition mode_10_box_office_like :: "world \<Rightarrow> unit run" where
  "mode_10_box_office_like w =
     and_then (tmdb_get w ''/discover/movie''
        [''language'' \<mapsto> PStr (asc ''en-US''),
         ''sort_by'' \<mapsto> PStr (asc ''popularity.desc''),
         ''primary_release_date.gte'' \<mapsto> PDate (today w - 14),
         ''primary_release_date.lte'' \<mapsto> PDate (today w),
         ''vote_count.gte'' \<mapsto> PInt 100,
         ''page'' \<mapsto> PInt 1])
     (\<lambda>data. and_then (pure_step (pick_best_result (get_or (json_results data) []) 100))
     (\<lambda>movie. case movie of
        None \<Rightarrow> py_print (asc ''Film bulunamad'' @ [305] @ asc ''.'')
      | Some m \<Rightarrow> tweet w (mode_10_text m)))"

definition mode_13_trending_riser :: "world \<Rightarrow> unit run" where
  "mode_13_trending_riser w =
     and_then (tmdb_get w ''/trending/movie/day''
        [''language'' \<mapsto> PStr (asc ''en-US'')])
     (\<lambda>data. and_then (pure_step (pick_best_result (get_or (json_results data) []) 50))
     (\<lambda>movie. case movie of
        None \<Rightarrow> py_print (asc ''Film bulunamad'' @ [305] @ asc ''.'')
      | Some m \<Rightarrow> tweet w (mode_13_text m)))"

definition mode_14_best_poster :: "world \<Rightarrow> unit run" where
  "mode_14_best_poster w =
     and_then (tmdb_get w ''/movie/popular''
        [''language'' \<mapsto> PStr (asc ''en-US''), ''page'' \<mapsto> PInt 1])
     (\<lambda>data.
        let candidates = filter (\<lambda>m. truthy (poster_path m)) (get_or (json_results data) [])
        in if candidates = []
           then py_print (asc ''Poster'' @ [39] @ asc ''l'' @ [305] @ asc '' film bulunamad'' @ [305]
                  @ asc ''.'')
           else and_then (pure_step (random_choice (rand1 w) candidates))
                (\<lambda>movie. tweet w (mode_14_text movie)))"

definition mode_15_turkish_movies_popular :: "world \<Rightarrow> unit run" where
  "mode_15_turkish_movies_popular w =
     and_then (tmdb_get w ''/discover/movie''
        [''language'' \<mapsto> PStr (asc ''tr-TR''),
         ''with_original_language'' \<mapsto> PStr (asc ''tr''),
         ''sort_by'' \<mapsto> PStr (asc ''popularity.desc''),
         ''page'' \<mapsto> PInt 1])
     (\<lambda>data. and_then (pure_step (pick_best_result (get_or (json_results data) []) 20))
     (\<lambda>movie. case movie of
        None \<Rightarrow> py_print (asc ''T'' @ [252] @ asc ''rk filmi bulunamad'' @ [305] @ asc ''.'')
      | Some m \<Rightarrow> tweet w (mode_15_text m)))"

definition mode_16_classic_of_day :: "world \<Rightarrow> unit run" where
  "mode_16_classic_of_day w =
     random_quality w
       [''language'' \<mapsto> PStr (asc ''en-US''),
        ''sort_by'' \<mapsto> PStr (asc ''popularity.desc''),
        ''primary_release_date.lte'' \<mapsto> PStr (asc ''2005-12-31''),
        ''vote_count.gte'' \<mapsto> PInt 500]
       50
       (asc ''Klasik film bulunamad'' @ [305] @ asc ''.'')
       mode_16_text"

text \<open>
  Mode 17 in three parts. Lines 499 to 512: when the strict query gave no item, the
  relaxed query replaces \<open>first\<close>, \<open>results\<close> and \<open>base_params\<close>. Lines 514 to 540: with
  no item the run ends, otherwise a page is drawn and one item of it is posted.
\<close>

definition hidden_gem_relax ::
  "world \<Rightarrow> response \<Rightarrow> params \<Rightarrow> params \<Rightarrow> (response \<times> movie list \<times> params) run" where
  "hidden_gem_relax w first base_params relaxed_params =
     (let results = or_else (json_results first) []
      in if results = []
         then and_then (py_print (asc ''Dar hidden gem filtresinde film bulunamad'' @ [305]
                          @ asc '', filtremi gev'' @ [351] @ asc ''etiyorum.''))
              (\<lambda>_. and_then (tmdb_get w ''/discover/movie'' relaxed_params)
              (\<lambda>first. pure_step
                 (Inr (first, or_else (json_results first) [], relaxed_params))))
         else pure_step (Inr (first, results, base_params)))"

definition hidden_gem_draw ::
  "world \<Rightarrow> response \<Rightarrow> movie list \<Rightarrow> params \<Rightarrow> unit run" where
  "hidden_gem_draw w first results base_params =
     (if results = []
      then py_print (asc ''Hidden gem film h'' @ [226] @ asc ''l'' @ [226] @ asc '' bulunamad''
             @ [305] @ asc '', tweet atlamay'' @ [305] @ asc '' tercih ettim.'')
      else and_then (pure_step (random_page (rand1 w) first 30))
           (\<lambda>page. and_then (tmdb_get w ''/discover/movie''
                               (base_params(''page'' \<mapsto> PInt page)))
           (\<lambda>data.
              let all_results = or_else (json_results data) results
              in and_then (pure_step (random_choice (rand2 w) all_results))
                 (\<lambda>movie. tweet w (mode_17_text movie)))))"

definition mode_17_hidden_gem :: "world \<Rightarrow> unit run" where
  "mode_17_hidden_gem w =
     (let base_params =
            [''language'' \<mapsto> PStr (asc ''tr-TR''),
             ''sort_by'' \<mapsto> PStr (asc ''popularity.desc''),
             ''vote_average.gte'' \<mapsto> PNum 7.0,
             ''vote_count.gte'' \<mapsto> PInt 100,
             ''vote_count.lte'' \<mapsto> PInt 2000];
          relaxed_params =
            [''language'' \<mapsto> PStr (asc ''tr-TR''),
             ''sort_by'' \<mapsto> PStr (asc ''popularity.desc''),
             ''vote_average.gte'' \<mapsto> PNum 7.0,
             ''vote_count.gte'' \<mapsto> PInt 50]
      in and_then (tmdb_get w ''/discover/movie'' base_params)
         (\<lambda>first. and_then (hidden_gem_relax w first base_params relaxed_params)
         (\<lambda>(first, results, base_params). hidden_gem_draw w first results base_params)))"

section \<open>Dispatch\<close>

definition MODES :: "(ustr \<times> (world \<Rightarrow> unit run)) list" where
  "MODES =
     [(asc ''1'', mode_1_turkey_popular_today),
      (asc ''2'', mode_2_world_popular_today),
      (asc ''3'', mode_3_new_release_today),
      (asc ''4'', mode_4_week_top_rated),
      (asc ''5'', mode_5_random_quality),
      (asc ''8'', mode_8_netflix_tr_popular),
      (asc ''10'', mode_10_box_office_like),
      (asc ''13'', mode_13_trending_riser),
      (asc ''14'', mode_14_best_poster),
      (asc ''15'', mode_15_turkish_movies_popular),
      (asc ''16'', mode_16_classic_of_day),
      (asc ''17'', mode_17_hidden_gem)]"

text \<open>\<open>main()\<close>, lines 560 to 571.\<close>

definition main :: "world \<Rightarrow> unit run" where
  "main w =
     and_then (pure_step (ensure_env w))
     (\<lambda>_. if length (argv w) < 2
          then pure_step (Inl (SystemExit
                 (asc ''Kullan'' @ [305] @ asc ''m: python bot.py <MODE>'' @ [10, 214]
                  @ asc ''rnek: python bot.py 1  # T'' @ [252] @ asc ''rkiye'' @ [39]
                  @ asc ''de en pop'' @ [252] @ asc ''ler film'')))
          else (let mode_key = argv w ! 1
                in case map_of MODES mode_key of
                     None \<Rightarrow> pure_step (Inl (SystemExit (asc ''Bilinmeyen MODE: '' @ mode_key)))
                   | Some func \<Rightarrow> func w))"

section \<open>Notions used by the statements\<close>

text \<open>
  The line \<open>title (date) - star rating\<close> of a message, for a title, a date text and a
  rating text; and what it means for a text function to show the year and the rating of a
  candidate, and to show the two texts of the scenario.
\<close>

definition headline :: "ustr \<Rightarrow> ustr \<Rightarrow> ustr \<Rightarrow> ustr" where
  "headline t d v =
     t @ asc '' ('' @ d @ asc '') '' @ [8211] @ asc '' '' @ [11088] @ asc '' '' @ v"

definition shows_year_and_rating :: "(movie \<Rightarrow> ustr) \<Rightarrow> movie \<Rightarrow> bool" where
  "shows_year_and_rating render m =
     contains (headline (title m) (take 4 (get_or (release_date m) []))
                 (format_1f (get_or (vote_average m) 0))) (render m)"

definition shows_date_and_rating :: "(movie \<Rightarrow> ustr) \<Rightarrow> movie \<Rightarrow> bool" where
  "shows_date_and_rating render m =
     contains (headline (title m) (get_or (release_date m) [])
                 (format_1f (get_or (vote_average m) 0))) (render m)"

definition shows_year :: "(movie \<Rightarrow> ustr) \<Rightarrow> movie \<Rightarrow> bool" where
  "shows_year render m =
     contains (title m @ asc '' ('' @ take 4 (get_or (release_date m) []) @ asc '')'') (render m)"

definition shows_scenario :: "(movie \<Rightarrow> ustr) \<Rightarrow> bool" where
  "shows_scenario render =
     (contains (asc ''Test Movie (2024)'') (render test_movie)
      \<and> contains ([11088] @ asc '' 8.2'') (render test_movie))"

text \<open>
  A world in which every query of the metadata service succeeds and returns no item.
\<close>

definition no_items :: "world \<Rightarrow> bool" where
  "no_items w = (\<forall>url p. \<exists>r. http_get w url p = Inr r \<and> or_else (json_results r) [] = [])"

text \<open>The page numbers that the GETs of a run ask for.\<close>

fun page_of_event :: "event \<Rightarrow> int list" where
  "page_of_event (HttpGet u p) = (case p ''page'' of Some (PInt n) \<Rightarrow> [n] | _ \<Rightarrow> [])"
| "page_of_event _ = []"

definition pages_of :: "event list \<Rightarrow> int list" where
  "pages_of t = concat (map page_of_event t)"

text \<open>
  The page \<open>n\<close> is clamped for the reply \<open>first\<close> and a ceiling: it lies between 1 and
  the page count of the reply capped by the ceiling (or 1 when that is smaller), and it is
  1 when the count is 0 or absent.
\<close>

definition page_clamped :: "response \<Rightarrow> int \<Rightarrow> int \<Rightarrow> bool" where
  "page_clamped first ceiling_pages n =
     (1 \<le> n \<and> n \<le> max (min (get_or (json_total_pages first) 1) ceiling_pages) 1
      \<and> (json_total_pages first = Some 0 \<longrightarrow> n = 1)
      \<and> (json_total_pages first = None \<longrightarrow> n = 1))"

text \<open>
  The parameters of the first query of the modes 5, 16 and 17 (\<open>base_params\<close> in the
  source), and those of the relaxed query of mode 17 (\<open>relaxed_params\<close>).
\<close>

definition mode_5_query :: params where
  "mode_5_query =
     [''language'' \<mapsto> PStr (asc ''tr-TR''),
      ''sort_by'' \<mapsto> PStr (asc ''popularity.desc''),
      ''vote_average.gte'' \<mapsto> PNum 7.5,
      ''vote_count.gte'' \<mapsto> PInt 300]"

definition mode_16_query :: params where
  "mode_16_query =
     [''language'' \<mapsto> PStr (asc ''en-US''),
      ''sort_by'' \<mapsto> PStr (asc ''popularity.desc''),
      ''primary_release_date.lte'' \<mapsto> PStr (asc ''2005-12-31''),
      ''vote_count.gte'' \<mapsto> PInt 500]"

definition mode_17_query :: params where
  "mode_17_query =
     [''language'' \<mapsto> PStr (asc ''tr-TR''),
      ''sort_by'' \<mapsto> PStr (asc ''popularity.desc''),
      ''vote_average.gte'' \<mapsto> PNum 7.0,
      ''vote_count.gte'' \<mapsto> PInt 100,
      ''vote_count.lte'' \<mapsto> PInt 2000]"

definition mode_17_relaxed_query :: params where
  "mode_17_relaxed_query =
     [''language'' \<mapsto> PStr (asc ''tr-TR''),
      ''sort_by'' \<mapsto> PStr (asc ''popularity.desc''),
      ''vote_average.gte'' \<mapsto> PNum 7.0,
      ''vote_count.gte'' \<mapsto> PInt 50]"

text \<open>A run that ends normally and has sent no post.\<close>

definition quiet :: "unit run \<Rightarrow> bool" where
  "quiet r = (snd r = Inr () \<and> tweets_of (fst r) = [])"

text \<open>Sample worlds.\<close>

definition quiet_world :: world where
  "quiet_world =
     \<lparr>environ = (\<lambda>_. Some (asc ''secret'')), argv = [asc ''bot.py'', asc ''1''], today = 20000,
      http_get = (\<lambda>_ _. Inr \<lparr>json_results = Some [], json_total_pages = Some 0\<rparr>),
      create_tweet = (\<lambda>_. Inr (asc ''ok'')), rand1 = 7, rand2 = 3\<rparr>"

definition busy_world :: world where
  "busy_world =
     quiet_world\<lparr>http_get :=
       (\<lambda>_ _. Inr \<lparr>json_results = Some [test_movie], json_total_pages = Some 500\<rparr>)\<rparr>"

definition zero_reply :: response where
  "zero_reply = \<lparr>json_results = Some [test_movie], json_total_pages = Some 0\<rparr>"

definition absent_reply :: response where
  "absent_reply = \<lparr>json_results = Some [test_movie], json_total_pages = None\<rparr>"

definition replying :: "response \<Rightarrow> world" where
  "replying r = quiet_world\<lparr>http_get := (\<lambda>_ _. Inr r)\<rparr>"

definition relaxing_world :: world where
  "relaxing_world =
     quiet_world\<lparr>http_get :=
       (\<lambda>_ p. if p ''vote_count.lte'' = None then Inr zero_reply
              else Inr \<lparr>json_results = Some [], json_total_pages = Some 3\<rparr>)\<rparr>"




definition unconfigured_world :: world where
  "unconfigured_world =
     quiet_world\<lparr>environ := (\<lambda>name. if name = ''X_API_SECRET'' then None
                                      else Some (asc ''secret''))\<rparr>"

section \<open>Properties of the string helpers\<close>

lemma starts_with_append: "starts_with p (p @ s)"
  by (induction p) auto

lemma contains_append: "contains sub (a @ sub @ b)"
proof (induction a)
  case Nil
  show ?case
  proof (cases "sub @ b")
    case Nil
    then show ?thesis by simp
  next
    case (Cons c cs)
    then show ?thesis
      using starts_with_append [of sub b] by simp
  qed
next
  case (Cons x a)
  then show ?case by simp
qed

lemma ends_with_append: "ends_with suf (s @ suf)"
  by (simp add: ends_with_def starts_with_append)

lemma contains_shape: "text = pre @ sub @ post \<Longrightarrow> contains sub text"
  by (simp only: contains_append)

lemma starts_with_split: "starts_with p s \<Longrightarrow> \<exists>post. s = p @ post"
  by (induction p s rule: starts_with.induct) auto

lemma contains_split: "contains sub s \<Longrightarrow> \<exists>pre post. s = pre @ sub @ post"
proof (induction s)
  case Nil
  then show ?case by simp
next
  case (Cons c cs)
  show ?case
  proof (cases "starts_with sub (c # cs)")
    case True
    from starts_with_split [OF this] obtain post where "c # cs = [] @ sub @ post" by auto
    then show ?thesis by blast
  next
    case False
    with Cons obtain pre post where "cs = pre @ sub @ post" by auto
    then have "c # cs = (c # pre) @ sub @ post" by simp
    then show ?thesis by blast
  qed
qed

lemma contains_trans:
  assumes "contains a b" "contains b c"
  shows "contains a c"
proof -
  from contains_split [OF assms(1)] obtain p1 q1 where b: "b = p1 @ a @ q1" by blast
  from contains_split [OF assms(2)] obtain p2 q2 where c: "c = p2 @ b @ q2" by blast
  from b c have "c = (p2 @ p1) @ a @ (q1 @ q2)" by simp
  then show ?thesis by (rule contains_shape)
qed

lemma join_holds: "x \<in> set xs \<Longrightarrow> \<exists>a b. join sep xs = a @ x @ b"
proof (induction sep xs rule: join.induct)
  case (1 sep)
  then show ?case by simp
next
  case (2 sep y)
  then have "join sep [y] = [] @ x @ []" by simp
  then show ?case by blast
next
  case (3 sep y z zs)
  show ?case
  proof (cases "x = y")
    case True
    then have "join sep (y # z # zs) = [] @ x @ (sep @ join sep (z # zs))" by simp
    then show ?thesis by blast
  next
    case False
    with 3 obtain a b where "join sep (z # zs) = a @ x @ b" by auto
    then have "join sep (y # z # zs) = (y @ sep @ a) @ x @ b" by simp
    then show ?thesis by blast
  qed
qed

lemma contains_join: "x \<in> set xs \<Longrightarrow> contains x (pre @ join sep xs)"
proof -
  assume "x \<in> set xs"
  from join_holds [OF this] obtain a b where "join sep xs = a @ x @ b" by blast
  then have "pre @ join sep xs = (pre @ a) @ x @ b" by simp
  then show ?thesis by (simp only: contains_append)
qed

section \<open>Properties of summary truncation\<close>

lemma rsplit1_none: "sep \<notin> set s \<Longrightarrow> rsplit1 sep s = [s]"
  by (simp add: rsplit1_def)

lemma rsplit1_split:
  assumes "sep \<in> set s"
  shows "\<exists>h r. rsplit1 sep s = [h, r] \<and> s = h @ sep # r \<and> sep \<notin> set r"
proof -
  let ?P = "\<lambda>c. c \<noteq> sep"
  let ?tw = "takeWhile ?P (rev s)"
  let ?dw = "dropWhile ?P (rev s)"
  from assms have ne: "?dw \<noteq> []" by (simp add: dropWhile_eq_Nil_conv)
  then have hd: "hd ?dw = sep" using hd_dropWhile [of ?P "rev s"] by simp
  have "rev s = ?tw @ ?dw" by simp
  also have "?dw = sep # tl ?dw" using ne hd by (cases ?dw) auto
  finally have "rev (rev s) = rev (?tw @ sep # tl ?dw)" by simp
  then have s: "s = rev (tl ?dw) @ sep # rev ?tw" by simp
  have "sep \<notin> set (rev ?tw)" using set_takeWhileD [of sep ?P "rev s"] by auto
  with s assms show ?thesis unfolding rsplit1_def by auto
qed

lemma shorten_long:
  assumes "int (length t) > b" "1 \<le> b"
  shows "shorten (Some t) b = hd (rsplit1 space (take (nat (b - 1)) t)) @ [ellipsis]"
proof -
  from assms have "t \<noteq> []" by auto
  moreover have "rsplit1 space (take (nat (b - 1)) t) \<noteq> []" by (simp add: rsplit1_def)
  ultimately show ?thesis using assms
    by (auto simp: shorten_def slice_to_def split: list.splits)
qed

section \<open>Publisher truncation: the claim\<close>

text \<open>
  C1. For every input string, the truncation step of the Publisher returns a string of
  length exactly 270 that ends with the three-character marker \<open>...\<close> when the input is
  longer than 270 characters, and returns the input unchanged when its length is at most
  270.
\<close>

theorem tweet_text_truncation:
  "(270 < length text \<longrightarrow>
       length (tweet_text text) = 270 \<and> ends_with dots (tweet_text text)
       \<and> tweet_text text = take 267 text @ dots)
   \<and> (length text \<le> 270 \<longrightarrow> tweet_text text = text)"
  by (auto simp: tweet_text_def max_len_tweet_def slice_to_def ends_with_append dots_def)

theorem tweet_text_truncation_witness:
  "270 < length (replicate 300 (65::nat)) \<and> length (tweet_text (replicate 300 65)) = 270
   \<and> ends_with dots (tweet_text (replicate 300 65))
   \<and> length (asc ''abc'') \<le> 270 \<and> tweet_text (asc ''abc'') = asc ''abc''"
  using tweet_text_truncation [of "replicate 300 65"] tweet_text_truncation [of "asc ''abc''"]
  by (simp add: asc_def dots_def ends_with_append)

section \<open>Summary truncation: the claim\<close>

text \<open>
  C2, as amended. An absent or empty summary gives the empty string, and a summary of length
  at most the budget is returned unchanged. For a summary longer than the budget (any
  budget of at least 1, so every budget in 150..180) the output is never longer than the
  budget and ends with the single ellipsis character. When the first budget - 1 characters
  hold a space, the cut is at the last such space, so that no word is split; when they
  hold none, the output is those budget - 1 characters followed by the ellipsis.
\<close>

theorem shorten_budget:
  "shorten None b = [] \<and> shorten (Some []) b = []
   \<and> (int (length t) \<le> b \<longrightarrow> shorten (Some t) b = t)
   \<and> (b < int (length t) \<and> 1 \<le> b \<longrightarrow>
        int (length (shorten (Some t) b)) \<le> b
        \<and> ends_with [ellipsis] (shorten (Some t) b)
        \<and> (space \<in> set (take (nat (b - 1)) t) \<longrightarrow>
              cut_at_space t (shorten (Some t) b)
              \<and> space \<notin> set (drop (length (shorten (Some t) b)) (take (nat (b - 1)) t)))
        \<and> (space \<notin> set (take (nat (b - 1)) t) \<longrightarrow>
              shorten (Some t) b = take (nat (b - 1)) t @ [ellipsis]))"
proof -
  have a: "shorten None b = [] \<and> shorten (Some []) b = []"
    by (simp add: shorten_def)
  have b: "int (length t) \<le> b \<longrightarrow> shorten (Some t) b = t"
    by (simp add: shorten_def)
  have c: "int (length (shorten (Some t) b)) \<le> b
        \<and> ends_with [ellipsis] (shorten (Some t) b)
        \<and> (space \<in> set (take (nat (b - 1)) t) \<longrightarrow>
              cut_at_space t (shorten (Some t) b)
              \<and> space \<notin> set (drop (length (shorten (Some t) b)) (take (nat (b - 1)) t)))
        \<and> (space \<notin> set (take (nat (b - 1)) t) \<longrightarrow>
              shorten (Some t) b = take (nat (b - 1)) t @ [ellipsis])"
    if long: "b < int (length t)" and pos: "1 \<le> b"
  proof -
    let ?s = "take (nat (b - 1)) t"
    have len_s: "int (length ?s) = b - 1" using long pos by simp
    note sh = shorten_long [OF long pos]
    show ?thesis
    proof (cases "space \<in> set ?s")
      case False
      then have "shorten (Some t) b = ?s @ [ellipsis]"
        using sh by (simp add: rsplit1_none)
      with False len_s show ?thesis by (simp add: ends_with_append)
    next
      case True
      from rsplit1_split [OF True] obtain h r where
        hr: "rsplit1 space ?s = [h, r]" "?s = h @ space # r" "space \<notin> set r" by blast
      have out: "shorten (Some t) b = h @ [ellipsis]"
        by (simp only: sh hr(1) list.sel)
      have "length ?s = length (h @ space # r)" by (simp only: hr(2))
      then have lh: "length h < length ?s" by simp
      have "t = ?s @ drop (nat (b - 1)) t" by simp
      also have "\<dots> = (h @ space # r) @ drop (nat (b - 1)) t" by (simp only: hr(2))
      finally have t: "t = h @ space # (r @ drop (nat (b - 1)) t)" by simp
      have nth: "t ! length h = space" by (subst t) simp
      have tk: "take (length h) t = h" by (subst t) simp
      have lt: "length h < length t" using lh by simp
      have cut: "cut_at_space t (h @ [ellipsis])"
        using nth tk lt by (simp add: cut_at_space_def)
      have "drop (Suc (length h)) (h @ space # r) = r" by simp
      then have dr: "drop (Suc (length h)) ?s = r" by (simp only: hr(2))
      have "int (length h) + 1 \<le> b" using lh len_s by linarith
      then have le: "int (length (h @ [ellipsis])) \<le> b" by simp
      have e: "ends_with [ellipsis] (h @ [ellipsis])" by (rule ends_with_append)
      have "space \<notin> set (drop (length (h @ [ellipsis])) ?s)" using dr hr(3) by simp
      with cut le e True show ?thesis by (simp only: out) simp
    qed
  qed
  from a b c show ?thesis by blast
qed

text \<open>
  The claim as it was stated fails: a summary of 200 letters without a space, with the
  budget 150, is cut after its 149th letter, inside the word.
\<close>

theorem shorten_splits_word: "shorten (Some (replicate 200 97)) 150 = replicate 149 97 @ [ellipsis]
  \<and> \<not> cut_at_space (replicate 200 97) (shorten (Some (replicate 200 97)) 150)"
proof -
  have ns: "space \<notin> set (take (nat (150 - 1)) (replicate 200 (97::nat)))"
    by (simp add: space_def)
  have "shorten (Some (replicate 200 97)) 150
          = hd (rsplit1 space (take (nat (150 - 1)) (replicate 200 97))) @ [ellipsis]"
    by (rule shorten_long) simp_all
  also have "\<dots> = take (nat (150 - 1)) (replicate 200 97) @ [ellipsis]"
    by (simp only: rsplit1_none [OF ns] list.sel)
  also have "\<dots> = replicate 149 97 @ [ellipsis]" by simp
  finally have out: "shorten (Some (replicate 200 97)) 150 = replicate 149 97 @ [ellipsis]" .
  have "(replicate 200 (97::nat)) ! 149 \<noteq> space" by (simp add: space_def)
  then have "\<not> cut_at_space (replicate 200 97) (replicate 149 97 @ [ellipsis])"
    by (simp add: cut_at_space_def)
  with out show ?thesis by simp
qed


theorem shorten_budget_witness:
  "int (length (asc ''short'')) \<le> 150 \<and> shorten (Some (asc ''short'')) 150 = asc ''short''
   \<and> 150 < int (length (replicate 100 (97::nat) @ [32] @ replicate 100 98))
   \<and> (1::int) \<le> 150
   \<and> space \<in> set (take (nat (150 - 1)) (replicate 100 97 @ [32] @ replicate 100 98))
   \<and> cut_at_space (replicate 100 97 @ [32] @ replicate 100 98)
        (shorten (Some (replicate 100 97 @ [32] @ replicate 100 98)) 150)
   \<and> int (length (shorten (Some (replicate 100 97 @ [32] @ replicate 100 98)) 150)) \<le> 150
   \<and> 150 < int (length (replicate 160 (98::nat)))
   \<and> space \<notin> set (take (nat (150 - 1)) (replicate 160 98))
   \<and> shorten (Some (replicate 160 98)) 150 = take (nat (150 - 1)) (replicate 160 98) @ [ellipsis]"
proof -
  have s: "int (length (asc ''short'')) \<le> 150" by (simp add: asc_def)
  have l1: "150 < int (length (replicate 100 (97::nat) @ [32] @ replicate 100 98))" by simp
  have p: "(1::int) \<le> 150" by simp
  have sp: "space \<in> set (take (nat (150 - 1)) (replicate 100 97 @ [32] @ replicate 100 98))"
    by (simp add: space_def)
  have l2: "150 < int (length (replicate 160 (98::nat)))" by simp
  have ns: "space \<notin> set (take (nat (150 - 1)) (replicate 160 98))" by (simp add: space_def)
  show ?thesis
    using shorten_budget [of 150 "asc ''short''"]
      shorten_budget [of 150 "replicate 100 97 @ [32] @ replicate 100 98"]
      shorten_budget [of 150 "replicate 160 98"] s l1 p sp l2 ns
    by blast
qed


section \<open>Properties of the stable descending sort\<close>

lemma sort_reverse_set: "set (sort_reverse k xs) = set xs"
  by (simp add: sort_reverse_def)

lemma sort_key_Nil: "(sort_key k ys = []) = (ys = [])"
  by (metis length_sort length_0_conv)

lemma sort_reverse_Nil: "(sort_reverse k xs = []) = (xs = [])"
  by (simp add: sort_reverse_def sort_key_Nil)

lemma filter_hd_split:
  assumes "filter P xs \<noteq> []"
  shows "\<exists>pre post. xs = pre @ hd (filter P xs) # post \<and> (\<forall>x\<in>set pre. \<not> P x)"
proof -
  from assms obtain y ys where f: "filter P xs = y # ys" by (cases "filter P xs") auto
  then obtain us vs where "xs = us @ y # vs" "\<forall>u\<in>set us. \<not> P u"
    by (auto simp: filter_eq_Cons_iff)
  then have "xs = us @ hd (filter P xs) # vs \<and> (\<forall>x\<in>set us. \<not> P x)" using f by simp
  then show ?thesis by blast
qed

lemma sorted_le_last:
  assumes "sorted zs" "z \<in> set zs"
  shows "z \<le> last zs"
proof -
  from assms(2) have ne: "zs \<noteq> []" by auto
  then have zs: "zs = butlast zs @ [last zs]" by simp
  from assms(1) have "sorted (butlast zs @ [last zs])" by (simp only: zs [symmetric])
  then have "\<forall>x\<in>set (butlast zs). x \<le> last zs" by (simp add: sorted_append)
  moreover from assms(2) have "z \<in> set (butlast zs @ [last zs])" by (simp only: zs [symmetric])
  ultimately show ?thesis by auto
qed

lemma last_filter_same:
  assumes "xs \<noteq> []" "P (last xs)"
  shows "last (filter P xs) = last xs"
proof -
  from assms(1) have xs: "xs = butlast xs @ [last xs]" by simp
  have "filter P (butlast xs @ [last xs]) = filter P (butlast xs) @ [last xs]"
    using assms(2) by simp
  then have "last (filter P (butlast xs @ [last xs])) = last xs" by simp
  then show ?thesis by (simp only: xs [symmetric])
qed

lemma sort_reverse_first_max:
  assumes "xs \<noteq> []"
  shows "\<exists>m rest pre post. sort_reverse k xs = m # rest \<and> xs = pre @ m # post
           \<and> (\<forall>x\<in>set pre. k x < k m) \<and> (\<forall>x\<in>set post. k x \<le> k m)"
proof -
  let ?ys = "sort_key k (rev xs)"
  let ?m = "last ?ys"
  let ?P = "\<lambda>y. k y = k ?m"
  have ne: "?ys \<noteq> []" using assms by (simp add: sort_key_Nil)
  then have sr: "sort_reverse k xs = ?m # rev (butlast ?ys)"
    unfolding sort_reverse_def by (metis append_butlast_last_id rev.simps(2) rev_append rev_rev_ident append_Nil rev.simps(1) append_Cons)
  have m_in: "?m \<in> set xs" using ne last_in_set [OF ne] by simp
  have mx: "\<forall>x\<in>set xs. k x \<le> k ?m"
  proof
    fix x assume "x \<in> set xs"
    then have "k x \<in> set (map k ?ys)" by simp
    moreover have "sorted (map k ?ys)" by (rule sorted_sort_key)
    ultimately have "k x \<le> last (map k ?ys)" by (rule sorted_le_last [rotated])
    then show "k x \<le> k ?m" using ne by (simp add: last_map)
  qed
  have "last (filter ?P ?ys) = ?m" using ne by (rule last_filter_same) simp
  moreover have "filter ?P ?ys = filter ?P (rev xs)" by (rule sort_key_stable)
  ultimately have "last (rev (filter ?P xs)) = ?m" by (simp add: rev_filter)
  moreover have fne: "filter ?P xs \<noteq> []" using m_in by (auto simp: filter_empty_conv)
  ultimately have hd: "hd (filter ?P xs) = ?m" by (simp add: last_rev)
  from filter_hd_split [OF fne] hd obtain pre post where
    sp: "xs = pre @ ?m # post" "\<forall>x\<in>set pre. k x \<noteq> k ?m" by auto
  have "\<forall>x\<in>set pre. k x < k ?m"
  proof
    fix x assume x: "x \<in> set pre"
    then have "x \<in> set xs" by (subst sp(1)) simp
    with mx have "k x \<le> k ?m" by blast
    with sp(2) x show "k x < k ?m" by (simp add: less_le)
  qed
  moreover have "\<forall>x\<in>set post. k x \<le> k ?m"
  proof
    fix x assume x: "x \<in> set post"
    then have "x \<in> set xs" by (subst sp(1)) simp
    with mx show "k x \<le> k ?m" by blast
  qed
  ultimately show ?thesis using sr sp(1) by blast
qed


lemma surviving_stages:
  "surviving results t =
     (if filter (qualifies t) results \<noteq> [] then filter (qualifies t) results
      else if filter has_poster results \<noteq> [] then filter has_poster results
      else results)"
  by (simp add: surviving_def Let_def)

lemma surviving_Nil: "(surviving results t = []) = (results = [])"
  by (auto simp: surviving_stages filter_empty_conv)

lemma surviving_subset: "set (surviving results t) \<subseteq> set results"
  by (auto simp: surviving_stages)

lemma pick_best_result_Nil: "surviving results t = [] \<Longrightarrow> pick_best_result results t = Inr None"
  by (simp add: pick_best_result_def)

lemma pick_best_result_first_max:
  assumes "surviving results t \<noteq> []"
  shows "\<exists>m pre post. pick_best_result results t = Inr (Some m)
           \<and> surviving results t = pre @ m # post
           \<and> (\<forall>x\<in>set pre. rank_key x < rank_key m)
           \<and> (\<forall>x\<in>set post. rank_key x \<le> rank_key m)"
proof -
  from sort_reverse_first_max [OF assms, of rank_key] obtain m rest pre post where
    h: "sort_reverse rank_key (surviving results t) = m # rest"
       "surviving results t = pre @ m # post"
       "\<forall>x\<in>set pre. rank_key x < rank_key m" "\<forall>x\<in>set post. rank_key x \<le> rank_key m"
    by blast
  have "pick_best_result results t = Inr (Some m)"
    using assms h(1) by (simp add: pick_best_result_def)
  with h show ?thesis by blast
qed

lemma pick_best_result_in:
  assumes "pick_best_result results t = Inr (Some m)"
  shows "m \<in> set (surviving results t)"
proof (cases "surviving results t = []")
  case True
  with assms show ?thesis by (simp add: pick_best_result_def)
next
  case False
  from pick_best_result_first_max [OF False] assms show ?thesis by auto
qed

lemma rank_key_less_eq:
  "(rank_key a \<le> rank_key b) =
     (get_or (vote_average a) 0 < get_or (vote_average b) 0
      \<or> (get_or (vote_average a) 0 = get_or (vote_average b) 0
          \<and> get_or (popularity a) 0 \<le> get_or (popularity b) 0))"
  by (auto simp: rank_key_def less_eq_prod_def)

lemma rank_key_less:
  "(rank_key a < rank_key b) =
     (get_or (vote_average a) 0 < get_or (vote_average b) 0
      \<or> (get_or (vote_average a) 0 = get_or (vote_average b) 0
          \<and> get_or (popularity a) 0 < get_or (popularity b) 0))"
  by (auto simp: rank_key_def less_prod_def)

section \<open>The best-of policy: the claims\<close>

text \<open>
  C10. For every candidate list and every threshold, \<open>pick_best_result\<close> returns without
  raising (fields that are absent are read as their defaults); it returns \<open>None\<close> exactly
  when the list is empty, and for a list that is not empty it returns an element of the
  list.
\<close>

theorem pick_best_result_total:
  "(\<exists>r. pick_best_result results t = Inr r)
   \<and> ((pick_best_result results t = Inr None) = (results = []))
   \<and> (results \<noteq> [] \<longrightarrow> (\<exists>m. pick_best_result results t = Inr (Some m) \<and> m \<in> set results))"
proof (cases "results = []")
  case True
  then show ?thesis by (simp add: pick_best_result_Nil surviving_Nil)
next
  case False
  then have "surviving results t \<noteq> []" by (simp add: surviving_Nil)
  from pick_best_result_first_max [OF this] obtain m where
    m: "pick_best_result results t = Inr (Some m)" by blast
  from pick_best_result_in [OF m] surviving_subset have "m \<in> set results" by blast
  with m False show ?thesis by simp
qed

lemmas sample_defs =
  sample_results_def test_movie_def movie_twin_def movie_low_def movie_noposter_def
  movie_fewvotes_def movie_bare_def float_8_2_def

lemmas pick_defs =
  pick_best_result_def surviving_def qualifies_def has_poster_def get_or_def
  sort_reverse_def rank_key_def asc_def less_eq_prod_def

theorem pick_best_result_total_witness:
  "[movie_bare] \<noteq> [] \<and> pick_best_result [movie_bare] 50 = Inr (Some movie_bare)
   \<and> movie_bare \<in> set [movie_bare] \<and> pick_best_result [] 50 = Inr None"
  using pick_best_result_total [of "[movie_bare]" 50] pick_best_result_total [of "[]" 50]
  by simp

text \<open>
  C3. The best-of policy selects from the first stage that is not empty: the items with a
  poster and a rating count of at least the threshold, then the items with a poster, then
  the whole list. It returns \<open>None\<close> only for the empty list. When some item has a poster
  and meets the threshold, the selected item has a poster (and meets the threshold).
\<close>

theorem pick_best_result_stages:
  "(filter (qualifies t) results \<noteq> [] \<longrightarrow>
      (\<exists>m. pick_best_result results t = Inr (Some m) \<and> m \<in> set (filter (qualifies t) results)))
   \<and> (filter (qualifies t) results = [] \<and> filter has_poster results \<noteq> [] \<longrightarrow>
      (\<exists>m. pick_best_result results t = Inr (Some m) \<and> m \<in> set (filter has_poster results)))
   \<and> (filter has_poster results = [] \<and> results \<noteq> [] \<longrightarrow>
      (\<exists>m. pick_best_result results t = Inr (Some m) \<and> m \<in> set results))
   \<and> ((pick_best_result results t = Inr None) = (results = []))
   \<and> ((\<exists>r\<in>set results. has_poster r \<and> t \<le> get_or (vote_count r) 0) \<longrightarrow>
      (\<exists>m. pick_best_result results t = Inr (Some m) \<and> has_poster m
           \<and> t \<le> get_or (vote_count m) 0))"
proof (cases "results = []")
  case True
  then show ?thesis by (simp add: pick_best_result_Nil surviving_Nil)
next
  case False
  then have ne: "surviving results t \<noteq> []" by (simp add: surviving_Nil)
  from pick_best_result_first_max [OF ne] obtain m where
    m: "pick_best_result results t = Inr (Some m)" by blast
  note mem = pick_best_result_in [OF m]
  have s1: "filter (qualifies t) results \<noteq> [] \<longrightarrow> m \<in> set (filter (qualifies t) results)"
    using mem by (auto simp: surviving_stages split: if_splits)
  have s2: "filter (qualifies t) results = [] \<and> filter has_poster results \<noteq> [] \<longrightarrow>
      m \<in> set (filter has_poster results)"
    using mem by (auto simp: surviving_stages split: if_splits)
  have s3: "m \<in> set results" using mem surviving_subset by blast
  have s5: "(\<exists>r\<in>set results. has_poster r \<and> t \<le> get_or (vote_count r) 0) \<longrightarrow>
      has_poster m \<and> t \<le> get_or (vote_count m) 0"
  proof
    assume "\<exists>r\<in>set results. has_poster r \<and> t \<le> get_or (vote_count r) 0"
    then have "filter (qualifies t) results \<noteq> []"
      by (auto simp: filter_empty_conv qualifies_def)
    with s1 have "qualifies t m" by simp
    then show "has_poster m \<and> t \<le> get_or (vote_count m) 0" by (simp add: qualifies_def)
  qed
  from m s1 s2 s3 s5 False show ?thesis by simp
qed

theorem pick_best_result_stages_witness:
  "filter (qualifies 50) sample_results \<noteq> []
   \<and> pick_best_result sample_results 50 = Inr (Some test_movie)
   \<and> test_movie \<in> set (filter (qualifies 50) sample_results)
   \<and> filter (qualifies 50) [movie_bare, movie_fewvotes] = []
   \<and> filter has_poster [movie_bare, movie_fewvotes] \<noteq> []
   \<and> pick_best_result [movie_bare, movie_fewvotes] 50 = Inr (Some movie_fewvotes)
   \<and> filter has_poster [movie_bare, movie_noposter] = []
   \<and> pick_best_result [movie_bare, movie_noposter] 50 = Inr (Some movie_noposter)
   \<and> has_poster test_movie \<and> (50::int) \<le> get_or (vote_count test_movie) 0"
  using pick_best_result_stages [of 50 sample_results]
    pick_best_result_stages [of 50 "[movie_bare, movie_fewvotes]"]
    pick_best_result_stages [of 50 "[movie_bare, movie_noposter]"]
  by (simp add: sample_defs pick_defs)

text \<open>
  C4. The selected item is greatest among the surviving items for the pair (average
  rating, popularity) compared lexicographically: every surviving item has a smaller
  rating, or the same rating and a popularity that is not greater. So an item B is never
  selected when a surviving item A has a strictly greater rating, whatever the
  popularities. Among items equal on both components the earliest of the input is
  selected: no item before the selected one has the same pair.
\<close>

theorem pick_best_result_ranking:
  assumes "pick_best_result results t = Inr (Some m)"
  shows "m \<in> set (surviving results t)
   \<and> (\<forall>a\<in>set (surviving results t).
         get_or (vote_average a) 0 < get_or (vote_average m) 0
         \<or> (get_or (vote_average a) 0 = get_or (vote_average m) 0
             \<and> get_or (popularity a) 0 \<le> get_or (popularity m) 0))
   \<and> (\<forall>a\<in>set (surviving results t). \<forall>b\<in>set (surviving results t).
         get_or (vote_average b) 0 < get_or (vote_average a) 0 \<longrightarrow> m \<noteq> b)
   \<and> (\<exists>pre post. surviving results t = pre @ m # post
         \<and> (\<forall>x\<in>set pre. rank_key x \<noteq> rank_key m))"
proof -
  have ne: "surviving results t \<noteq> []" using pick_best_result_in [OF assms] by auto
  from pick_best_result_first_max [OF ne] assms obtain pre post where
    h: "surviving results t = pre @ m # post"
       "\<forall>x\<in>set pre. rank_key x < rank_key m" "\<forall>x\<in>set post. rank_key x \<le> rank_key m"
    by auto
  have le: "\<forall>a\<in>set (surviving results t). rank_key a \<le> rank_key m"
    using h by (auto simp: less_le)
  then have c2: "\<forall>a\<in>set (surviving results t).
         get_or (vote_average a) 0 < get_or (vote_average m) 0
         \<or> (get_or (vote_average a) 0 = get_or (vote_average m) 0
             \<and> get_or (popularity a) 0 \<le> get_or (popularity m) 0)"
    by (simp add: rank_key_less_eq)
  have c3: "\<forall>a\<in>set (surviving results t). \<forall>b\<in>set (surviving results t).
         get_or (vote_average b) 0 < get_or (vote_average a) 0 \<longrightarrow> m \<noteq> b"
  proof (intro ballI impI)
    fix a b :: movie
    assume a: "a \<in> set (surviving results t)"
      and lt: "get_or (vote_average b) 0 < get_or (vote_average a) 0"
    from c2 a have "get_or (vote_average a) 0 \<le> get_or (vote_average m) 0" by auto
    with lt show "m \<noteq> b" by auto
  qed
  have c4: "\<exists>pre post. surviving results t = pre @ m # post
         \<and> (\<forall>x\<in>set pre. rank_key x \<noteq> rank_key m)"
    using h(1) h(2) by (intro exI [of _ pre] exI [of _ post]) auto
  from pick_best_result_in [OF assms] c2 c3 c4 show ?thesis by blast
qed

theorem pick_best_result_ranking_witness:
  "pick_best_result sample_results 50 = Inr (Some test_movie)
   \<and> surviving sample_results 50 = [movie_low, test_movie, movie_twin]
   \<and> get_or (vote_average movie_low) 0 < get_or (vote_average test_movie) 0
   \<and> get_or (popularity test_movie) 0 < get_or (popularity movie_low) 0
   \<and> rank_key movie_twin = rank_key test_movie
   \<and> test_movie \<noteq> movie_low \<and> test_movie \<noteq> movie_twin
   \<and> test_movie \<in> set (surviving sample_results 50)"
proof -
  have p: "pick_best_result sample_results 50 = Inr (Some test_movie)"
    by (simp add: sample_defs pick_defs)
  have s: "surviving sample_results 50 = [movie_low, test_movie, movie_twin]"
    by (simp add: sample_defs surviving_def qualifies_def has_poster_def get_or_def asc_def)
  have r: "get_or (vote_average movie_low) 0 < get_or (vote_average test_movie) 0
     \<and> get_or (popularity test_movie) 0 < get_or (popularity movie_low) 0
     \<and> rank_key movie_twin = rank_key test_movie \<and> test_movie \<noteq> movie_twin"
    by (simp add: sample_defs get_or_def rank_key_def)
  from pick_best_result_ranking [OF p] have "test_movie \<in> set (surviving sample_results 50)"
    and "\<forall>a\<in>set (surviving sample_results 50). \<forall>b\<in>set (surviving sample_results 50).
         get_or (vote_average b) 0 < get_or (vote_average a) 0 \<longrightarrow> test_movie \<noteq> b"
    by blast+
  with p s r show ?thesis by auto
qed


section \<open>The random page\<close>

lemma random_page_value:
  "\<exists>n. random_page u first c = Inr n
        \<and> 1 \<le> n \<and> n \<le> max (min (get_or (json_total_pages first) 1) c) 1
        \<and> (max (min (get_or (json_total_pages first) 1) c) 1 = 1 \<longrightarrow> n = 1)"
proof -
  define hi where "hi = max (min (get_or (json_total_pages first) 1) c) 1"
  define n where "n = 1 + int u mod hi"
  have hi: "1 \<le> hi" by (simp add: hi_def)
  have r: "random_page u first c = Inr n"
    using hi by (simp add: random_page_def random_randint_def Let_def hi_def [symmetric] n_def)
  have lo: "0 \<le> int u mod hi" using hi by simp
  have up: "int u mod hi < hi" using hi by simp
  have one: "hi = 1 \<longrightarrow> n = 1" by (simp add: n_def)
  have "1 \<le> n \<and> n \<le> hi" using lo up by (simp add: n_def)
  with r one have "random_page u first c = Inr n \<and> 1 \<le> n \<and> n \<le> hi \<and> (hi = 1 \<longrightarrow> n = 1)"
    by blast
  then show ?thesis unfolding hi_def by (rule exI)
qed

lemma pages_of_tweet: "pages_of (fst (tweet w x)) = []"
  by (simp add: tweet_def Let_def pages_of_def split: sum.splits exn.splits)

lemma pages_of_append: "pages_of (a @ b) = pages_of a @ pages_of b"
  by (simp add: pages_of_def)

lemma pages_of_and_then:
  "pages_of (fst (and_then m f))
     = pages_of (fst m) @ (case snd m of Inl e \<Rightarrow> [] | Inr a \<Rightarrow> pages_of (fst (f a)))"
  by (simp add: and_then_def pages_of_def split: prod.splits sum.splits)

lemma pages_of_tmdb_get:
  "pages_of (fst (tmdb_get w path params))
     = (case params ''page'' of Some (PInt n) \<Rightarrow> [n] | _ \<Rightarrow> [])"
  by (simp add: tmdb_get_def Let_def pages_of_def)

lemma random_quality_pages:
  assumes "base ''page'' = None" "1 \<le> c"
  shows "\<forall>n\<in>set (pages_of (fst (random_quality w base c msg render))). 1 \<le> n \<and> n \<le> c"
proof -
  have second: "\<forall>n\<in>set (pages_of (fst (
      and_then (pure_step (random_page (rand1 w) first c))
     (\<lambda>page. and_then (tmdb_get w ''/discover/movie'' (base(''page'' \<mapsto> PInt page)))
     (\<lambda>data.
        let results = or_else (json_results data) (or_else (json_results first) [])
        in if results = [] then py_print msg
           else and_then (pure_step (random_choice (rand2 w) results))
                (\<lambda>movie. tweet w (render movie))))))). 1 \<le> n \<and> n \<le> c" for first
  proof -
    from random_page_value [of "rand1 w" first c] obtain k where
      k: "random_page (rand1 w) first c = Inr k" "1 \<le> k"
         "k \<le> max (min (get_or (json_total_pages first) 1) c) 1" by blast
    from k(3) assms(2) have kc: "k \<le> c" by simp
    show ?thesis
      using k(2) kc
      by (simp add: k(1) pages_of_and_then pages_of_tmdb_get pure_step_def py_print_def
          pages_of_tweet Let_def split: sum.splits)
        (simp add: pages_of_def)
  qed
  have p0: "pages_of (fst (tmdb_get w ''/discover/movie'' base)) = []"
    using assms(1) by (simp add: pages_of_tmdb_get)
  show ?thesis
    unfolding random_quality_def
    apply (subst pages_of_and_then)
    apply (simp only: p0 append_Nil)
    apply (cases "snd (tmdb_get w ''/discover/movie'' base)")
     apply (simp only: sum.case list.set ball_empty)
    apply (simp only: sum.case)
    apply (rule second)
    done
qed

lemma mode_5_pages:
  "\<forall>n\<in>set (pages_of (fst (mode_5_random_quality w))). 1 \<le> n \<and> n \<le> 50"
  unfolding mode_5_random_quality_def by (rule random_quality_pages) simp_all

lemma mode_16_pages:
  "\<forall>n\<in>set (pages_of (fst (mode_16_classic_of_day w))). 1 \<le> n \<and> n \<le> 50"
  unfolding mode_16_classic_of_day_def by (rule random_quality_pages) simp_all

lemma random_page_eq:
  "random_page u first c = Inr (1 + int u mod max (min (get_or (json_total_pages first) 1) c) 1)"
  by (simp add: random_page_def random_randint_def Let_def)

lemma drawn_page_bounds:
  assumes "1 \<le> c"
  shows "1 \<le> 1 + int u mod max (min x c) 1 \<and> 1 + int u mod max (min x c) 1 \<le> c"
proof -
  define hi where "hi = max (min x c) 1"
  have hi: "1 \<le> hi" "hi \<le> c" using assms by (simp_all add: hi_def)
  have "0 \<le> int u mod hi" "int u mod hi < hi" using hi(1) by simp_all
  with hi(2) show ?thesis unfolding hi_def [symmetric] by linarith
qed

lemma pages_of_print: "pages_of (fst (py_print s)) = []"
  by (simp add: py_print_def pages_of_def)

lemma pages_of_pure: "pages_of (fst (pure_step r)) = []"
  by (simp add: pure_step_def pages_of_def)

lemma hidden_gem_relax_pages:
  assumes "base ''page'' = None" "relaxed ''page'' = None"
  shows "pages_of (fst (hidden_gem_relax w first base relaxed)) = []
     \<and> (\<forall>f r bp. snd (hidden_gem_relax w first base relaxed) = Inr (f, r, bp)
           \<longrightarrow> bp ''page'' = None)"
  using assms
  by (simp add: hidden_gem_relax_def and_then_def tmdb_get_def py_print_def pure_step_def
      pages_of_def Let_def split: sum.splits prod.splits)

lemma hidden_gem_draw_pages:
  assumes "bp ''page'' = None"
  shows "\<forall>n\<in>set (pages_of (fst (hidden_gem_draw w first results bp))). 1 \<le> n \<and> n \<le> 30"
  using drawn_page_bounds [of 30 "rand1 w" "get_or (json_total_pages first) 1"]
  by (simp add: hidden_gem_draw_def pages_of_and_then pages_of_tmdb_get random_page_eq
      pages_of_print pages_of_tweet pure_step_def Let_def split: sum.splits)
    (simp add: pages_of_def)

lemma mode_17_pages:
  "\<forall>n\<in>set (pages_of (fst (mode_17_hidden_gem w))). 1 \<le> n \<and> n \<le> 30"
proof -
  let ?b = "[''language'' \<mapsto> PStr (asc ''tr-TR''),
             ''sort_by'' \<mapsto> PStr (asc ''popularity.desc''),
             ''vote_average.gte'' \<mapsto> PNum 7.0,
             ''vote_count.gte'' \<mapsto> PInt 100,
             ''vote_count.lte'' \<mapsto> PInt 2000]"
  let ?r = "[''language'' \<mapsto> PStr (asc ''tr-TR''),
             ''sort_by'' \<mapsto> PStr (asc ''popularity.desc''),
             ''vote_average.gte'' \<mapsto> PNum 7.0,
             ''vote_count.gte'' \<mapsto> PInt 50]"
  have b: "?b ''page'' = None" by simp
  have r: "?r ''page'' = None" by simp
  have p0: "pages_of (fst (tmdb_get w ''/discover/movie'' ?b)) = []"
    by (simp add: pages_of_tmdb_get)
  note rp = hidden_gem_relax_pages [where base = ?b and relaxed = ?r, OF b r]
  have rest: "\<forall>n\<in>set (pages_of (fst (and_then (hidden_gem_relax w first ?b ?r)
         (\<lambda>(first, results, base_params). hidden_gem_draw w first results base_params)))).
       1 \<le> n \<and> n \<le> 30" for first
  proof (cases "snd (hidden_gem_relax w first ?b ?r)")
    case (Inl e)
    then show ?thesis
      using rp [of w first] by (simp add: pages_of_and_then)
  next
    case (Inr v)
    obtain f rs bp where v: "v = (f, rs, bp)" by (cases v) auto
    with Inr rp [of w first] have "bp ''page'' = None" by blast
    then have "\<forall>n\<in>set (pages_of (fst (hidden_gem_draw w f rs bp))). 1 \<le> n \<and> n \<le> 30"
      by (rule hidden_gem_draw_pages)
    with Inr v rp [of w first] show ?thesis by (simp add: pages_of_and_then)
  qed
  show ?thesis
    unfolding mode_17_hidden_gem_def Let_def
    apply (subst pages_of_and_then)
    apply (simp only: p0 append_Nil)
    apply (cases "snd (tmdb_get w ''/discover/movie'' ?b)")
     apply (simp only: sum.case list.set ball_empty)
    apply (simp only: sum.case)
    apply (rule rest)
    done
qed

lemma snd_tmdb_get: "snd (tmdb_get w path params)
   = http_get w (TMDB_BASE_URL @ path) (params(''api_key'' \<mapsto> pstr_opt (TMDB_API_KEY w)))"
  by (simp add: tmdb_get_def Let_def)

lemma busy_http: "http_get busy_world url p
   = Inr \<lparr>json_results = Some [test_movie], json_total_pages = Some 500\<rparr>"
  by (simp add: busy_world_def quiet_world_def)

lemma busy_rand1: "rand1 busy_world = 7"
  by (simp add: busy_world_def quiet_world_def)

lemma busy_page: "random_page 7 \<lparr>json_results = Some [test_movie], json_total_pages = Some 500\<rparr> c
  = Inr (1 + 7 mod max (min 500 c) 1)"
  by (simp add: random_page_eq get_or_def)

lemma pages_of_Nil: "pages_of [] = []"
  by (simp add: pages_of_def)

lemmas busy_defs =
  pages_of_and_then pages_of_tmdb_get pages_of_print pages_of_tweet pages_of_pure pages_of_Nil
  snd_tmdb_get busy_http busy_rand1 busy_page or_else_def Let_def pure_step_def
  random_choice_def

lemma busy_pages_5: "pages_of (fst (mode_5_random_quality busy_world)) = [8]"
  by (simp add: mode_5_random_quality_def random_quality_def busy_defs)

lemma busy_pages_16: "pages_of (fst (mode_16_classic_of_day busy_world)) = [8]"
  by (simp add: mode_16_classic_of_day_def random_quality_def busy_defs)

lemma busy_relax:
  "hidden_gem_relax w \<lparr>json_results = Some [test_movie], json_total_pages = Some 500\<rparr> b r
     = ([], Inr (\<lparr>json_results = Some [test_movie], json_total_pages = Some 500\<rparr>,
                 [test_movie], b))"
  by (simp add: hidden_gem_relax_def or_else_def pure_step_def Let_def)

lemma busy_pages_17: "pages_of (fst (mode_17_hidden_gem busy_world)) = [8]"
  by (simp add: mode_17_hidden_gem_def busy_relax hidden_gem_draw_def busy_defs)

lemma page_clamped_draw:
  "page_clamped first c (1 + int u mod max (min (get_or (json_total_pages first) 1) c) 1)"
proof -
  define hi where "hi = max (min (get_or (json_total_pages first) 1) c) 1"
  define n where "n = 1 + int u mod hi"
  have hi: "1 \<le> hi" by (simp add: hi_def)
  have lo: "0 \<le> int u mod hi" using hi by simp
  have up: "int u mod hi < hi" using hi by simp
  have b: "1 \<le> n \<and> n \<le> hi" using lo up by (simp add: n_def)
  have one: "hi = 1 \<longrightarrow> n = 1" by (simp add: n_def)
  have z: "json_total_pages first = Some 0 \<longrightarrow> hi = 1" by (simp add: hi_def get_or_def)
  have a: "json_total_pages first = None \<longrightarrow> hi = 1" by (simp add: hi_def get_or_def)
  have s0: "json_total_pages first = Some 0 \<longrightarrow> n = 1" using z one by (intro impI) simp
  have s1: "json_total_pages first = None \<longrightarrow> n = 1" using a one by (intro impI) simp
  from b s0 s1 have "1 \<le> n \<and> n \<le> hi
      \<and> (json_total_pages first = Some 0 \<longrightarrow> n = 1)
      \<and> (json_total_pages first = None \<longrightarrow> n = 1)" by (intro conjI) simp_all
  then show ?thesis unfolding page_clamped_def n_def hi_def .
qed

lemma random_quality_draw:
  assumes "base ''page'' = None" "snd (tmdb_get w ''/discover/movie'' base) = Inr first"
  shows "pages_of (fst (random_quality w base c msg render))
     = [1 + int (rand1 w) mod max (min (get_or (json_total_pages first) 1) c) 1]"
  using assms
  by (simp add: random_quality_def pages_of_and_then pages_of_tmdb_get random_page_eq
      pages_of_print pages_of_tweet pages_of_pure pages_of_Nil pure_step_def Let_def
      split: sum.splits)

lemma hidden_gem_draw_page:
  assumes "results \<noteq> []" "bp ''page'' = None"
  shows "pages_of (fst (hidden_gem_draw w first results bp))
     = [1 + int (rand1 w) mod max (min (get_or (json_total_pages first) 1) 30) 1]"
  using assms
  by (simp add: hidden_gem_draw_def pages_of_and_then pages_of_tmdb_get random_page_eq
      pages_of_print pages_of_tweet pages_of_pure pages_of_Nil pure_step_def Let_def
      split: sum.splits)

lemma hidden_gem_relax_kept:
  assumes "or_else (json_results first) [] \<noteq> []"
  shows "hidden_gem_relax w first b r = ([], Inr (first, or_else (json_results first) [], b))"
  using assms by (simp add: hidden_gem_relax_def pure_step_def Let_def)

lemma hidden_gem_relax_relaxed:
  assumes "or_else (json_results first) [] = []"
    "snd (tmdb_get w ''/discover/movie'' r) = Inr first2"
  shows "snd (hidden_gem_relax w first b r) = Inr (first2, or_else (json_results first2) [], r)"
  using assms
  by (simp add: hidden_gem_relax_def and_then_def tmdb_get_def py_print_def pure_step_def Let_def
      split: sum.splits prod.splits)

lemma mode_17_unfold:
  "mode_17_hidden_gem w =
     and_then (tmdb_get w ''/discover/movie'' mode_17_query)
       (\<lambda>first. and_then (hidden_gem_relax w first mode_17_query mode_17_relaxed_query)
       (\<lambda>(first, results, base_params). hidden_gem_draw w first results base_params))"
  by (simp add: mode_17_hidden_gem_def mode_17_query_def mode_17_relaxed_query_def Let_def)

lemma mode_17_draw_strict:
  assumes "snd (tmdb_get w ''/discover/movie'' mode_17_query) = Inr first"
    "or_else (json_results first) [] \<noteq> []"
  shows "pages_of (fst (mode_17_hidden_gem w))
     = [1 + int (rand1 w) mod max (min (get_or (json_total_pages first) 1) 30) 1]"
proof -
  have q: "mode_17_query ''page'' = None" by (simp add: mode_17_query_def)
  show ?thesis
    by (simp add: mode_17_unfold pages_of_and_then pages_of_tmdb_get q assms(1)
        hidden_gem_relax_kept [OF assms(2)] pages_of_Nil
        hidden_gem_draw_page [where bp = mode_17_query, OF assms(2) q])
qed

lemma mode_17_draw_relaxed:
  assumes "snd (tmdb_get w ''/discover/movie'' mode_17_query) = Inr first"
    "or_else (json_results first) [] = []"
    "snd (tmdb_get w ''/discover/movie'' mode_17_relaxed_query) = Inr first2"
    "or_else (json_results first2) [] \<noteq> []"
  shows "pages_of (fst (mode_17_hidden_gem w))
     = [1 + int (rand1 w) mod max (min (get_or (json_total_pages first2) 1) 30) 1]"
proof -
  have q: "mode_17_query ''page'' = None" by (simp add: mode_17_query_def)
  have r: "mode_17_relaxed_query ''page'' = None" by (simp add: mode_17_relaxed_query_def)
  have p: "pages_of (fst (hidden_gem_relax w first mode_17_query mode_17_relaxed_query)) = []"
    using hidden_gem_relax_pages [where base = mode_17_query and relaxed = mode_17_relaxed_query,
        OF q r, of w first] by simp
  show ?thesis
    by (simp add: mode_17_unfold pages_of_and_then pages_of_tmdb_get q assms(1) p
        hidden_gem_relax_relaxed [OF assms(2) assms(3)]
        hidden_gem_draw_page [where bp = mode_17_relaxed_query, OF assms(4) r])
qed

lemma mode_5_draw:
  assumes "snd (tmdb_get w ''/discover/movie'' mode_5_query) = Inr first"
  shows "pages_of (fst (mode_5_random_quality w))
     = [1 + int (rand1 w) mod max (min (get_or (json_total_pages first) 1) 50) 1]"
proof -
  have q: "mode_5_query ''page'' = None" by (simp add: mode_5_query_def)
  have "mode_5_random_quality w = random_quality w mode_5_query 50
       (asc ''Rastgele kaliteli film bulunamad'' @ [305] @ asc ''.'') mode_5_text"
    by (simp add: mode_5_random_quality_def mode_5_query_def)
  then show ?thesis by (simp only: random_quality_draw [where base = mode_5_query, OF q assms])
qed

lemma mode_16_draw:
  assumes "snd (tmdb_get w ''/discover/movie'' mode_16_query) = Inr first"
  shows "pages_of (fst (mode_16_classic_of_day w))
     = [1 + int (rand1 w) mod max (min (get_or (json_total_pages first) 1) 50) 1]"
proof -
  have q: "mode_16_query ''page'' = None" by (simp add: mode_16_query_def)
  have "mode_16_classic_of_day w = random_quality w mode_16_query 50
       (asc ''Klasik film bulunamad'' @ [305] @ asc ''.'') mode_16_text"
    by (simp add: mode_16_classic_of_day_def mode_16_query_def)
  then show ?thesis by (simp only: random_quality_draw [where base = mode_16_query, OF q assms])
qed

lemma fst_and_then:
  "fst (and_then m f) = fst m @ (case snd m of Inl e \<Rightarrow> [] | Inr a \<Rightarrow> fst (f a))"
  by (simp add: and_then_def split: prod.splits sum.splits)

lemma fst_tmdb_get:
  "fst (tmdb_get w path q)
     = [HttpGet (TMDB_BASE_URL @ path) (q(''api_key'' \<mapsto> pstr_opt (TMDB_API_KEY w)))]"
  by (simp add: tmdb_get_def Let_def)

lemma mode_5_first_get:
  "take 1 (fst (mode_5_random_quality w)) = fst (tmdb_get w ''/discover/movie'' mode_5_query)"
  by (simp add: mode_5_random_quality_def random_quality_def mode_5_query_def fst_and_then
      fst_tmdb_get)

lemma mode_16_first_get:
  "take 1 (fst (mode_16_classic_of_day w)) = fst (tmdb_get w ''/discover/movie'' mode_16_query)"
  by (simp add: mode_16_classic_of_day_def random_quality_def mode_16_query_def fst_and_then
      fst_tmdb_get)

lemma mode_17_first_get:
  "take 1 (fst (mode_17_hidden_gem w)) = fst (tmdb_get w ''/discover/movie'' mode_17_query)"
  by (simp add: mode_17_unfold fst_and_then fst_tmdb_get)

lemma drawn_page:
  "pages = [1 + int u mod max (min (get_or (json_total_pages first) 1) c) 1] \<Longrightarrow>
   \<exists>n. pages = [n] \<and> random_page u first c = Inr n \<and> page_clamped first c n"
  by (simp add: random_page_eq page_clamped_draw)

text \<open>
  C5. In every randomized-quality mode (5, 16 and 17) and for every page count of the
  first reply, 0 and absent included, the draw of the page never fails, and the page drawn
  lies between 1 and the capped count (or 1 when that is smaller). With a count of 0, or
  without a count, the page is exactly 1.

  The statement has three parts. The first is about the two lines that compute the page,
  for any reply and any ceiling. The second bounds every page that a GET of these modes
  asks for by the ceiling of the mode. The third is about the runs: each mode starts with
  its first query; whatever reply \<open>first\<close> that query gets, the run then asks for exactly
  one page, it is the page drawn from \<open>first\<close> with the ceiling of the mode (50, 50 and
  30), and it is clamped as said above. In mode 17 the draw is made from the reply of the
  strict query when it holds an item, and from the reply of the relaxed query when the
  strict one holds none and the relaxed one holds one.
\<close>

theorem random_page_clamped:
  "(\<exists>n. random_page u first c = Inr n
        \<and> 1 \<le> n \<and> n \<le> max (min (get_or (json_total_pages first) 1) c) 1
        \<and> (json_total_pages first = Some 0 \<longrightarrow> n = 1)
        \<and> (json_total_pages first = None \<longrightarrow> n = 1))
   \<and> (\<forall>n\<in>set (pages_of (fst (mode_5_random_quality w))). 1 \<le> n \<and> n \<le> 50)
   \<and> (\<forall>n\<in>set (pages_of (fst (mode_16_classic_of_day w))). 1 \<le> n \<and> n \<le> 50)
   \<and> (\<forall>n\<in>set (pages_of (fst (mode_17_hidden_gem w))). 1 \<le> n \<and> n \<le> 30)
   \<and> take 1 (fst (mode_5_random_quality w)) = fst (tmdb_get w ''/discover/movie'' mode_5_query)
   \<and> take 1 (fst (mode_16_classic_of_day w)) = fst (tmdb_get w ''/discover/movie'' mode_16_query)
   \<and> take 1 (fst (mode_17_hidden_gem w)) = fst (tmdb_get w ''/discover/movie'' mode_17_query)
   \<and> (snd (tmdb_get w ''/discover/movie'' mode_5_query) = Inr r5 \<longrightarrow>
        (\<exists>n. pages_of (fst (mode_5_random_quality w)) = [n]
             \<and> random_page (rand1 w) r5 50 = Inr n \<and> page_clamped r5 50 n))
   \<and> (snd (tmdb_get w ''/discover/movie'' mode_16_query) = Inr r16 \<longrightarrow>
        (\<exists>n. pages_of (fst (mode_16_classic_of_day w)) = [n]
             \<and> random_page (rand1 w) r16 50 = Inr n \<and> page_clamped r16 50 n))
   \<and> (snd (tmdb_get w ''/discover/movie'' mode_17_query) = Inr r17
        \<and> or_else (json_results r17) [] \<noteq> [] \<longrightarrow>
        (\<exists>n. pages_of (fst (mode_17_hidden_gem w)) = [n]
             \<and> random_page (rand1 w) r17 30 = Inr n \<and> page_clamped r17 30 n))
   \<and> (snd (tmdb_get w ''/discover/movie'' mode_17_query) = Inr r17
        \<and> or_else (json_results r17) [] = []
        \<and> snd (tmdb_get w ''/discover/movie'' mode_17_relaxed_query) = Inr r17b
        \<and> or_else (json_results r17b) [] \<noteq> [] \<longrightarrow>
        (\<exists>n. pages_of (fst (mode_17_hidden_gem w)) = [n]
             \<and> random_page (rand1 w) r17b 30 = Inr n \<and> page_clamped r17b 30 n))"
proof -
  from random_page_value [of u first c] obtain n where
    n: "random_page u first c = Inr n" "1 \<le> n"
       "n \<le> max (min (get_or (json_total_pages first) 1) c) 1"
       "max (min (get_or (json_total_pages first) 1) c) 1 = 1 \<longrightarrow> n = 1" by blast
  have z: "json_total_pages first = Some 0 \<longrightarrow> max (min (get_or (json_total_pages first) 1) c) 1 = 1"
    by (simp add: get_or_def)
  have a: "json_total_pages first = None \<longrightarrow> max (min (get_or (json_total_pages first) 1) c) 1 = 1"
    by (simp add: get_or_def)
  have s0: "json_total_pages first = Some 0 \<longrightarrow> n = 1"
  proof
    assume h: "json_total_pages first = Some 0"
    from z h have "max (min (get_or (json_total_pages first) 1) c) 1 = 1" by (rule mp)
    with n(4) show "n = 1" by (rule mp)
  qed
  have s1: "json_total_pages first = None \<longrightarrow> n = 1"
  proof
    assume h: "json_total_pages first = None"
    from a h have "max (min (get_or (json_total_pages first) 1) c) 1 = 1" by (rule mp)
    with n(4) show "n = 1" by (rule mp)
  qed
  from n(1) n(2) n(3) s0 s1 have "random_page u first c = Inr n
        \<and> 1 \<le> n \<and> n \<le> max (min (get_or (json_total_pages first) 1) c) 1
        \<and> (json_total_pages first = Some 0 \<longrightarrow> n = 1)
        \<and> (json_total_pages first = None \<longrightarrow> n = 1)" by (intro conjI)
  then have helper: "\<exists>n. random_page u first c = Inr n
        \<and> 1 \<le> n \<and> n \<le> max (min (get_or (json_total_pages first) 1) c) 1
        \<and> (json_total_pages first = Some 0 \<longrightarrow> n = 1)
        \<and> (json_total_pages first = None \<longrightarrow> n = 1)" by (rule exI)
  have d5: "snd (tmdb_get w ''/discover/movie'' mode_5_query) = Inr r5 \<longrightarrow>
        (\<exists>n. pages_of (fst (mode_5_random_quality w)) = [n]
             \<and> random_page (rand1 w) r5 50 = Inr n \<and> page_clamped r5 50 n)"
    by (intro impI drawn_page mode_5_draw)
  have d16: "snd (tmdb_get w ''/discover/movie'' mode_16_query) = Inr r16 \<longrightarrow>
        (\<exists>n. pages_of (fst (mode_16_classic_of_day w)) = [n]
             \<and> random_page (rand1 w) r16 50 = Inr n \<and> page_clamped r16 50 n)"
    by (intro impI drawn_page mode_16_draw)
  have d17: "snd (tmdb_get w ''/discover/movie'' mode_17_query) = Inr r17
        \<and> or_else (json_results r17) [] \<noteq> [] \<longrightarrow>
        (\<exists>n. pages_of (fst (mode_17_hidden_gem w)) = [n]
             \<and> random_page (rand1 w) r17 30 = Inr n \<and> page_clamped r17 30 n)"
  proof
    assume h: "snd (tmdb_get w ''/discover/movie'' mode_17_query) = Inr r17
        \<and> or_else (json_results r17) [] \<noteq> []"
    then have "pages_of (fst (mode_17_hidden_gem w))
       = [1 + int (rand1 w) mod max (min (get_or (json_total_pages r17) 1) 30) 1]"
      by (intro mode_17_draw_strict) simp_all
    then show "\<exists>n. pages_of (fst (mode_17_hidden_gem w)) = [n]
             \<and> random_page (rand1 w) r17 30 = Inr n \<and> page_clamped r17 30 n"
      by (rule drawn_page)
  qed
  have d17b: "snd (tmdb_get w ''/discover/movie'' mode_17_query) = Inr r17
        \<and> or_else (json_results r17) [] = []
        \<and> snd (tmdb_get w ''/discover/movie'' mode_17_relaxed_query) = Inr r17b
        \<and> or_else (json_results r17b) [] \<noteq> [] \<longrightarrow>
        (\<exists>n. pages_of (fst (mode_17_hidden_gem w)) = [n]
             \<and> random_page (rand1 w) r17b 30 = Inr n \<and> page_clamped r17b 30 n)"
  proof
    assume h: "snd (tmdb_get w ''/discover/movie'' mode_17_query) = Inr r17
        \<and> or_else (json_results r17) [] = []
        \<and> snd (tmdb_get w ''/discover/movie'' mode_17_relaxed_query) = Inr r17b
        \<and> or_else (json_results r17b) [] \<noteq> []"
    then have "pages_of (fst (mode_17_hidden_gem w))
       = [1 + int (rand1 w) mod max (min (get_or (json_total_pages r17b) 1) 30) 1]"
      by (intro mode_17_draw_relaxed [where first = r17]) simp_all
    then show "\<exists>n. pages_of (fst (mode_17_hidden_gem w)) = [n]
             \<and> random_page (rand1 w) r17b 30 = Inr n \<and> page_clamped r17b 30 n"
      by (rule drawn_page)
  qed
  from helper mode_5_pages [of w] mode_16_pages [of w] mode_17_pages [of w]
    mode_5_first_get [of w] mode_16_first_get [of w] mode_17_first_get [of w] d5 d16 d17 d17b
  show ?thesis by (intro conjI)
qed

lemma replying_get: "snd (tmdb_get (replying r) path q) = Inr r"
  by (simp add: snd_tmdb_get replying_def quiet_world_def)

lemma relaxing_strict:
  "snd (tmdb_get relaxing_world ''/discover/movie'' mode_17_query)
     = Inr \<lparr>json_results = Some [], json_total_pages = Some 3\<rparr>"
  by (simp add: snd_tmdb_get relaxing_world_def quiet_world_def mode_17_query_def)

lemma relaxing_relaxed:
  "snd (tmdb_get relaxing_world ''/discover/movie'' mode_17_relaxed_query) = Inr zero_reply"
  by (simp add: snd_tmdb_get relaxing_world_def quiet_world_def mode_17_relaxed_query_def)

lemma page_clamped_zero: "page_clamped zero_reply c n \<Longrightarrow> n = 1"
  by (simp add: page_clamped_def zero_reply_def)

lemma page_clamped_absent: "page_clamped absent_reply c n \<Longrightarrow> n = 1"
  by (simp add: page_clamped_def absent_reply_def)

theorem random_page_clamped_witness:
  "json_total_pages zero_reply = Some 0 \<and> json_total_pages absent_reply = None
   \<and> random_page 7 zero_reply 50 = Inr 1 \<and> random_page 7 absent_reply 30 = Inr 1
   \<and> 8 \<in> set (pages_of (fst (mode_5_random_quality busy_world)))
   \<and> 8 \<in> set (pages_of (fst (mode_16_classic_of_day busy_world)))
   \<and> 8 \<in> set (pages_of (fst (mode_17_hidden_gem busy_world)))
   \<and> (1::int) \<le> 8 \<and> (8::int) \<le> 30
   \<and> snd (tmdb_get (replying zero_reply) ''/discover/movie'' mode_5_query) = Inr zero_reply
   \<and> pages_of (fst (mode_5_random_quality (replying zero_reply))) = [1]
   \<and> snd (tmdb_get (replying absent_reply) ''/discover/movie'' mode_16_query) = Inr absent_reply
   \<and> pages_of (fst (mode_16_classic_of_day (replying absent_reply))) = [1]
   \<and> snd (tmdb_get (replying zero_reply) ''/discover/movie'' mode_17_query) = Inr zero_reply
   \<and> or_else (json_results zero_reply) [] \<noteq> []
   \<and> pages_of (fst (mode_17_hidden_gem (replying zero_reply))) = [1]
   \<and> or_else (json_results \<lparr>json_results = Some [], json_total_pages = Some 3\<rparr>) [] = []
   \<and> snd (tmdb_get relaxing_world ''/discover/movie'' mode_17_relaxed_query) = Inr zero_reply
   \<and> pages_of (fst (mode_17_hidden_gem relaxing_world)) = [1]"
proof -
  note zw = random_page_clamped [where u = 7 and first = zero_reply and c = 50
      and w = "replying zero_reply" and ?r5.0 = zero_reply and ?r16.0 = zero_reply
      and ?r17.0 = zero_reply and r17b = zero_reply]
  note aw = random_page_clamped [where u = 7 and first = absent_reply and c = 30
      and w = "replying absent_reply" and ?r5.0 = absent_reply and ?r16.0 = absent_reply
      and ?r17.0 = absent_reply and r17b = absent_reply]
  note rw = random_page_clamped [where u = 7 and first = zero_reply and c = 50
      and w = relaxing_world and ?r5.0 = zero_reply and ?r16.0 = zero_reply
      and ?r17.0 = "\<lparr>json_results = Some [], json_total_pages = Some 3\<rparr>" and r17b = zero_reply]
  note bw = random_page_clamped [where u = 7 and first = zero_reply and c = 50
      and w = busy_world and ?r5.0 = zero_reply and ?r16.0 = zero_reply
      and ?r17.0 = zero_reply and r17b = zero_reply]
  have z: "json_total_pages zero_reply = Some 0" by (simp add: zero_reply_def)
  have a: "json_total_pages absent_reply = None" by (simp add: absent_reply_def)
  have nz: "or_else (json_results zero_reply) [] \<noteq> []" by (simp add: zero_reply_def or_else_def)
  have e3: "or_else (json_results \<lparr>json_results = Some [], json_total_pages = Some 3\<rparr>) [] = []"
    by (simp add: or_else_def)
  from zw z have r1: "random_page 7 zero_reply 50 = Inr 1" by auto
  from aw a have r2: "random_page 7 absent_reply 30 = Inr 1" by auto
  have m: "8 \<in> set (pages_of (fst (mode_5_random_quality busy_world)))
     \<and> 8 \<in> set (pages_of (fst (mode_16_classic_of_day busy_world)))
     \<and> 8 \<in> set (pages_of (fst (mode_17_hidden_gem busy_world)))"
    by (simp add: busy_pages_5 busy_pages_16 busy_pages_17)
  from bw m have b8: "(1::int) \<le> 8 \<and> (8::int) \<le> 30" by simp
  from zw replying_get [of zero_reply "''/discover/movie''" mode_5_query]
  obtain n5 where "pages_of (fst (mode_5_random_quality (replying zero_reply))) = [n5]"
    "page_clamped zero_reply 50 n5" by auto
  then have p5: "pages_of (fst (mode_5_random_quality (replying zero_reply))) = [1]"
    using page_clamped_zero by simp
  from aw replying_get [of absent_reply "''/discover/movie''" mode_16_query]
  obtain n16 where "pages_of (fst (mode_16_classic_of_day (replying absent_reply))) = [n16]"
    "page_clamped absent_reply 50 n16" by auto
  then have p16: "pages_of (fst (mode_16_classic_of_day (replying absent_reply))) = [1]"
    using page_clamped_absent by simp
  from zw replying_get [of zero_reply "''/discover/movie''" mode_17_query] nz
  obtain n17 where "pages_of (fst (mode_17_hidden_gem (replying zero_reply))) = [n17]"
    "page_clamped zero_reply 30 n17" by auto
  then have p17: "pages_of (fst (mode_17_hidden_gem (replying zero_reply))) = [1]"
    using page_clamped_zero by simp
  from rw relaxing_strict relaxing_relaxed nz e3
  obtain n17b where "pages_of (fst (mode_17_hidden_gem relaxing_world)) = [n17b]"
    "page_clamped zero_reply 30 n17b" by auto
  then have p17b: "pages_of (fst (mode_17_hidden_gem relaxing_world)) = [1]"
    using page_clamped_zero by simp
  from z a r1 r2 m b8 p5 p16 p17 p17b nz e3 relaxing_relaxed
    replying_get [of zero_reply "''/discover/movie''" mode_5_query]
    replying_get [of absent_reply "''/discover/movie''" mode_16_query]
    replying_get [of zero_reply "''/discover/movie''" mode_17_query]
  show ?thesis by (intro conjI) simp_all
qed

section \<open>The configuration check\<close>

lemmas env_defs =
  TMDB_API_KEY_def X_BEARER_TOKEN_def X_API_KEY_def X_API_SECRET_def X_ACCESS_TOKEN_def
  X_ACCESS_SECRET_def

lemma missing_env_lists:
  assumes "name \<in> set required_env" "\<not> truthy (environ w name)"
  shows "asc name \<in> set (missing_env w)"
  using assms by (auto simp: required_env_def missing_env_def env_defs Let_def)

lemma missing_env_Nil:
  assumes "\<forall>name\<in>set required_env. truthy (environ w name)"
  shows "missing_env w = []"
  using assms by (simp add: required_env_def missing_env_def env_defs Let_def)

text \<open>
  C6. When one of the six required variables is absent (or empty), \<open>ensure_env\<close> raises a
  RuntimeError whose message contains the name of every missing variable, and \<open>main\<close>
  ends with that error without any event: no GET and no post has been sent. When all six
  are present, \<open>ensure_env\<close> raises nothing.
\<close>

theorem ensure_env_lists_missing:
  "(name \<in> set required_env \<and> \<not> truthy (environ w name) \<longrightarrow>
      (\<exists>msg. ensure_env w = Inl (RuntimeError msg) \<and> main w = ([], Inl (RuntimeError msg))
             \<and> contains (asc name) msg))
   \<and> ((\<forall>n\<in>set required_env. truthy (environ w n)) \<longrightarrow> ensure_env w = Inr ())"
proof -
  have a: "\<exists>msg. ensure_env w = Inl (RuntimeError msg) \<and> main w = ([], Inl (RuntimeError msg))
             \<and> contains (asc name) msg"
    if h: "name \<in> set required_env \<and> \<not> truthy (environ w name)"
  proof -
    from h have mem: "asc name \<in> set (missing_env w)" by (simp add: missing_env_lists)
    then have ne: "missing_env w \<noteq> []" by auto
    let ?msg = "(asc ''Eksik environment de'' @ [287] @ asc ''i'' @ [351] @ asc ''kenleri: '')
                 @ join (asc '', '') (missing_env w)"
    have e: "ensure_env w = Inl (RuntimeError ?msg)" using ne by (simp add: ensure_env_def Let_def)
    then have m: "main w = ([], Inl (RuntimeError ?msg))"
      by (simp add: main_def and_then_def pure_step_def)
    have "contains (asc name) ?msg" using mem by (rule contains_join)
    with e m show ?thesis by blast
  qed
  have b: "ensure_env w = Inr ()" if "\<forall>n\<in>set required_env. truthy (environ w n)"
    using missing_env_Nil [OF that] by (simp add: ensure_env_def)
  from a b show ?thesis by blast
qed

theorem ensure_env_lists_missing_witness:
  "''X_API_SECRET'' \<in> set required_env \<and> \<not> truthy (environ unconfigured_world ''X_API_SECRET'')
   \<and> (\<exists>msg. main unconfigured_world = ([], Inl (RuntimeError msg))
             \<and> contains (asc ''X_API_SECRET'') msg)
   \<and> truthy (environ quiet_world ''TMDB_API_KEY'') \<and> truthy (environ quiet_world ''X_ACCESS_SECRET'')
   \<and> ensure_env quiet_world = Inr ()"
proof -
  have m: "''X_API_SECRET'' \<in> set required_env \<and> \<not> truthy (environ unconfigured_world ''X_API_SECRET'')"
    by (simp add: required_env_def unconfigured_world_def quiet_world_def)
  have q: "\<forall>n\<in>set required_env. truthy (environ quiet_world n)"
    by (simp add: quiet_world_def asc_def)
  show ?thesis
    using ensure_env_lists_missing [of "''X_API_SECRET''" unconfigured_world]
      ensure_env_lists_missing [of "''X_API_SECRET''" quiet_world] m q
    by (auto simp: quiet_world_def asc_def)
qed

section \<open>The exceptions of the Publisher\<close>





section \<open>The rendered messages\<close>

lemma format_float_8_2: "format_1f float_8_2 = asc ''8.2''"
  by code_simp

lemma str_int_1: "str_int 1 = asc ''1''"
  by (simp add: str_int_def str_nat.simps asc_def)

lemma test_headline:
  "headline (title test_movie) (take 4 (get_or (release_date test_movie) []))
       (format_1f (get_or (vote_average test_movie) 0))
     = asc ''Test Movie (2024)'' @ [32, 8211, 32] @ ([11088] @ asc '' 8.2'') @ []"
  by (simp add: headline_def test_movie_def get_or_def format_float_8_2 asc_def)

lemma scenario_from_headline:
  assumes "shows_year_and_rating render test_movie"
  shows "shows_scenario render"
proof -
  let ?h = "headline (title test_movie) (take 4 (get_or (release_date test_movie) []))
       (format_1f (get_or (vote_average test_movie) 0))"
  from assms have h: "contains ?h (render test_movie)" by (simp add: shows_year_and_rating_def)
  have "?h = [] @ asc ''Test Movie (2024)'' @ ([32, 8211, 32] @ ([11088] @ asc '' 8.2'') @ [])"
    by (simp only: test_headline append_Nil)
  then have a: "contains (asc ''Test Movie (2024)'') ?h" by (rule contains_shape)
  have "?h = (asc ''Test Movie (2024)'' @ [32, 8211, 32]) @ ([11088] @ asc '' 8.2'') @ []"
    by (simp only: test_headline append_assoc)
  then have b: "contains ([11088] @ asc '' 8.2'') ?h" by (rule contains_shape)
  from contains_trans [OF a h] contains_trans [OF b h] show ?thesis
    by (simp only: shows_scenario_def simp_thms)
qed

lemma mode_1_text_shows: "shows_year_and_rating mode_1_text m"
  unfolding shows_year_and_rating_def
  by (rule contains_shape [where pre = "[127916] @ asc '' Bug'' @ [252] @ asc ''n T'' @ [252] @ asc ''rkiye'' @ [39] @ asc ''de en pop'' @ [252] @ asc ''ler film:'' @ [10]"
      and post = "[10, 10] @ shorten (overview m) 150 @ [10, 10] @ asc ''Daha fazla: '' @ asc ''https://tmdb.org/movie/'' @ str_int (movie_id m) @ [10] @ asc ''#film #sinema #tmdb''"])
    (simp add: mode_1_text_def headline_def slice_to_def)

lemma mode_2_text_shows: "shows_year_and_rating mode_2_text m"
  unfolding shows_year_and_rating_def
  by (rule contains_shape [where pre = "[127757] @ asc '' Bug'' @ [252] @ asc ''n d'' @ [252] @ asc ''nyada en pop'' @ [252] @ asc ''ler film:'' @ [10]"
      and post = "[10, 10] @ shorten (overview m) 150 @ [10, 10] @ asc ''Detaylar: '' @ asc ''https://www.themoviedb.org/movie/'' @ str_int (movie_id m) @ [10] @ asc ''#film #sinema #tmdb''"])
    (simp add: mode_2_text_def headline_def slice_to_def)

lemma mode_3_text_shows: "shows_date_and_rating mode_3_text m"
  unfolding shows_date_and_rating_def
  by (rule contains_shape [where pre = "[127903] @ asc '' Son g'' @ [252] @ asc ''nlerde vizyona gelen bir film:'' @ [10]"
      and post = "[10, 10] @ shorten (overview m) 150 @ [10, 10] @ asc ''Detaylar: '' @ asc ''https://www.themoviedb.org/movie/'' @ str_int (movie_id m) @ [10] @ asc ''#yenifilm #film'' @ [246] @ asc ''nerisi #tmdb''"])
    (simp add: mode_3_text_def headline_def slice_to_def)

lemma mode_4_text_shows: "shows_year_and_rating mode_4_text m"
  unfolding shows_year_and_rating_def
  by (rule contains_shape [where pre = "[128200] @ asc '' Haftan'' @ [305] @ asc ''n en y'' @ [252] @ asc ''ksek puanl'' @ [305] @ asc '' yeni filmi:'' @ [10]"
      and post = "[10, 10] @ shorten (overview m) 150 @ [10, 10] @ asc ''Detay: '' @ asc ''https://www.themoviedb.org/movie/'' @ str_int (movie_id m) @ [10] @ asc ''#film'' @ [246] @ asc ''nerisi #tmdb''"])
    (simp add: mode_4_text_def headline_def slice_to_def)

lemma mode_5_text_shows: "shows_year_and_rating mode_5_text m"
  unfolding shows_year_and_rating_def
  by (rule contains_shape [where pre = "[127922] @ asc '' Bug'' @ [252] @ asc ''n'' @ [252] @ asc ''n rastgele kaliteli filmi:'' @ [10]"
      and post = "[10, 10] @ shorten (overview m) 160 @ [10, 10] @ asc ''Listeye ekle: '' @ asc ''https://www.themoviedb.org/movie/'' @ str_int (movie_id m) @ [10] @ asc ''#film'' @ [246] @ asc ''nerisi #random #tmdb''"])
    (simp add: mode_5_text_def headline_def slice_to_def)

lemma mode_8_text_shows: "shows_year_and_rating mode_8_text m"
  unfolding shows_year_and_rating_def
  by (rule contains_shape [where pre = "[128250] @ asc '' T'' @ [252] @ asc ''rkiye'' @ [39] @ asc ''de Netflix'' @ [39] @ asc ''te en pop'' @ [252] @ asc ''ler film:'' @ [10]"
      and post = "[10, 10] @ shorten (overview m) 150 @ [10, 10] @ asc ''TMDB sayfas'' @ [305] @ asc '': '' @ asc ''https://www.themoviedb.org/movie/'' @ str_int (movie_id m) @ [10] @ asc ''#netflix #film #tmdb''"])
    (simp add: mode_8_text_def headline_def slice_to_def)

lemma mode_10_text_shows: "shows_year_and_rating mode_10_text m"
  unfolding shows_year_and_rating_def
  by (rule contains_shape [where pre = "[128176] @ asc '' Son haftalar'' @ [305] @ asc ''n gi'' @ [351] @ asc ''e '' @ [351] @ asc ''ampiyonu k'' @ [305] @ asc ''vam'' @ [305] @ asc ''nda film:'' @ [10]"
      and post = "[10, 10] @ shorten (overview m) 150 @ [10, 10] @ asc ''Daha fazla: '' @ asc ''https://www.themoviedb.org/movie/'' @ str_int (movie_id m) @ [10] @ asc ''#boxoffice #film #tmdb''"])
    (simp add: mode_10_text_def headline_def slice_to_def)

lemma mode_13_text_shows: "shows_year_and_rating mode_13_text m"
  unfolding shows_year_and_rating_def
  by (rule contains_shape [where pre = "[128640] @ asc '' Son 24 saatte trend olan film:'' @ [10]"
      and post = "[10, 10] @ shorten (overview m) 150 @ [10, 10] @ asc ''TMDB: '' @ asc ''https://www.themoviedb.org/movie/'' @ str_int (movie_id m) @ [10] @ asc ''#trending #film #tmdb''"])
    (simp add: mode_13_text_def headline_def slice_to_def)

lemma mode_14_text_shows: "shows_year mode_14_text m"
  unfolding shows_year_def
  by (rule contains_shape [where pre = "[128444] @ asc '' Bug'' @ [252] @ asc ''n'' @ [252] @ asc ''n poster se'' @ [231] @ asc ''imi:'' @ [10]"
      and post = "[10, 10] @ asc ''Poster: '' @ str_opt (build_poster_url (poster_path m)) @ [10] @ asc ''Detay: '' @ asc ''https://www.themoviedb.org/movie/'' @ str_int (movie_id m) @ [10] @ asc ''#poster #film #tmdb''"])
    (simp add: mode_14_text_def slice_to_def)

lemma mode_15_text_shows: "shows_year_and_rating mode_15_text m"
  unfolding shows_year_and_rating_def
  by (rule contains_shape [where pre = "[127481, 127479] @ asc '' Bug'' @ [252] @ asc ''n en pop'' @ [252] @ asc ''ler T'' @ [252] @ asc ''rk filmi:'' @ [10]"
      and post = "[10, 10] @ shorten (overview m) 150 @ [10, 10] @ asc ''Detay: '' @ asc ''https://www.themoviedb.org/movie/'' @ str_int (movie_id m) @ [10] @ asc ''#yerlifilm #turkiye #tmdb''"])
    (simp add: mode_15_text_def headline_def slice_to_def)

lemma mode_16_text_shows: "shows_year_and_rating mode_16_text m"
  unfolding shows_year_and_rating_def
  by (rule contains_shape [where pre = "[127902] @ asc '' Bug'' @ [252] @ asc ''n'' @ [252] @ asc ''n klasik filmi:'' @ [10]"
      and post = "[10, 10] @ shorten (overview m) 160 @ [10, 10] @ asc ''Koleksiyona ekle: '' @ asc ''https://www.themoviedb.org/movie/'' @ str_int (movie_id m) @ [10] @ asc ''#klasik #film #tmdb''"])
    (simp add: mode_16_text_def headline_def slice_to_def)

lemma mode_17_text_shows: "shows_year_and_rating mode_17_text m"
  unfolding shows_year_and_rating_def
  by (rule contains_shape [where pre = "[128142] @ asc '' Bug'' @ [252] @ asc ''n'' @ [252] @ asc ''n gizli m'' @ [252] @ asc ''cevher filmi:'' @ [10]"
      and post = "[10, 10] @ shorten (overview m) 160 @ [10, 10] @ asc ''Ke'' @ [351] @ asc ''fet: '' @ asc ''https://www.themoviedb.org/movie/'' @ str_int (movie_id m) @ [10] @ asc ''#gizlifilm #film'' @ [246] @ asc ''nerisi #tmdb''"])
    (simp add: mode_17_text_def headline_def slice_to_def)

text \<open>
  The claim as it was stated fails for two modes. Mode 3 prints the whole release date, so
  the message of the scenario holds \<open>Test Movie (2024-03-15)\<close> and not
  \<open>Test Movie (2024)\<close>; mode 14 prints no rating.
\<close>

theorem mode_3_shows_full_date:
  "\<not> contains (asc ''Test Movie (2024)'') (mode_3_text test_movie)
   \<and> contains (asc ''Test Movie (2024-03-15)'') (mode_3_text test_movie)
   \<and> \<not> contains ([11088] @ asc '' 8.2'') (mode_14_text test_movie)"
proof -
  have a: "\<not> contains (asc ''Test Movie (2024)'') (mode_3_text test_movie)"
    by (simp add: mode_3_text_def test_movie_def get_or_def format_float_8_2 shorten_def
        str_int_1 asc_def)
  have b: "contains (asc ''Test Movie (2024-03-15)'') (mode_3_text test_movie)"
    by (simp add: mode_3_text_def test_movie_def get_or_def format_float_8_2 shorten_def
        str_int_1 asc_def)
  have c: "\<not> contains ([11088] @ asc '' 8.2'') (mode_14_text test_movie)"
    by (simp add: mode_14_text_def test_movie_def get_or_def slice_to_def build_poster_url_def
        str_opt_def TMDB_IMAGE_BASE_def str_int_1 asc_def)
  from a b c show ?thesis by simp
qed

lemma mode_3_rating_scenario: "contains ([11088] @ asc '' 8.2'') (mode_3_text test_movie)"
  by (simp add: mode_3_text_def test_movie_def get_or_def format_float_8_2 shorten_def
        str_int_1 asc_def)

lemma mode_14_year_scenario: "contains (asc ''Test Movie (2024)'') (mode_14_text test_movie)"
  by (simp add: mode_14_text_def test_movie_def get_or_def slice_to_def build_poster_url_def
        str_opt_def TMDB_IMAGE_BASE_def str_int_1 asc_def)

text \<open>
  C8, as amended. In the modes 1, 2, 4, 5, 8, 10, 13, 15, 16 and 17 the message shows the
  title, then in brackets the first four characters of the release date, then the rating
  with one decimal place; for the candidate of the scenario it contains
  \<open>Test Movie (2024)\<close> and the star followed by \<open>8.2\<close>. Mode 3 shows the whole release
  date in the brackets, with the same rating. Mode 14 shows the title and the year, and
  no rating.
\<close>

theorem messages_show_year_and_rating:
  "shows_year_and_rating mode_1_text m \<and> shows_scenario mode_1_text
   \<and> shows_year_and_rating mode_2_text m \<and> shows_scenario mode_2_text
   \<and> shows_year_and_rating mode_4_text m \<and> shows_scenario mode_4_text
   \<and> shows_year_and_rating mode_5_text m \<and> shows_scenario mode_5_text
   \<and> shows_year_and_rating mode_8_text m \<and> shows_scenario mode_8_text
   \<and> shows_year_and_rating mode_10_text m \<and> shows_scenario mode_10_text
   \<and> shows_year_and_rating mode_13_text m \<and> shows_scenario mode_13_text
   \<and> shows_year_and_rating mode_15_text m \<and> shows_scenario mode_15_text
   \<and> shows_year_and_rating mode_16_text m \<and> shows_scenario mode_16_text
   \<and> shows_year_and_rating mode_17_text m \<and> shows_scenario mode_17_text
   \<and> shows_date_and_rating mode_3_text m
   \<and> contains ([11088] @ asc '' 8.2'') (mode_3_text test_movie)
   \<and> shows_year mode_14_text m
   \<and> contains (asc ''Test Movie (2024)'') (mode_14_text test_movie)"
  by (intro conjI mode_1_text_shows mode_2_text_shows mode_3_text_shows mode_4_text_shows
      mode_5_text_shows mode_8_text_shows mode_10_text_shows mode_13_text_shows
      mode_14_text_shows mode_15_text_shows mode_16_text_shows mode_17_text_shows
      scenario_from_headline mode_3_rating_scenario mode_14_year_scenario)

section \<open>Runs without a candidate\<close>

lemma or_else_get_or: "or_else v [] = [] \<Longrightarrow> get_or v [] = []"
  by (simp add: or_else_def get_or_def split: option.splits if_splits)

lemma no_items_replies:
  assumes "no_items w"
  obtains g where "\<And>url p. http_get w url p = Inr (g url p)"
    and "\<And>url p. or_else (json_results (g url p)) [] = []"
    and "\<And>url p. get_or (json_results (g url p)) [] = []"
proof -
  from assms have "\<forall>url. \<forall>p. \<exists>r. http_get w url p = Inr r \<and> or_else (json_results r) [] = []"
    by (simp add: no_items_def)
  then obtain g where g: "\<forall>url p. http_get w url p = Inr (g url p) \<and> or_else (json_results (g url p)) [] = []"
    by metis
  then have "\<And>url p. get_or (json_results (g url p)) [] = []" by (simp add: or_else_get_or)
  with g that show ?thesis by blast
qed

lemma pick_empty: "pick_best_result [] t = Inr None"
  by (simp add: pick_best_result_def surviving_def)

lemmas run_defs = tmdb_get_def and_then_def pure_step_def py_print_def Let_def quiet_def

lemma mode_1_quiet: "no_items w \<Longrightarrow> quiet (mode_1_turkey_popular_today w)"
  by (erule no_items_replies) (simp add: mode_1_turkey_popular_today_def run_defs pick_empty)

lemma mode_2_quiet: "no_items w \<Longrightarrow> quiet (mode_2_world_popular_today w)"
  by (erule no_items_replies) (simp add: mode_2_world_popular_today_def run_defs pick_empty)

lemma mode_3_quiet: "no_items w \<Longrightarrow> quiet (mode_3_new_release_today w)"
  by (erule no_items_replies) (simp add: mode_3_new_release_today_def run_defs pick_empty)

lemma mode_4_quiet: "no_items w \<Longrightarrow> quiet (mode_4_week_top_rated w)"
  by (erule no_items_replies) (simp add: mode_4_week_top_rated_def run_defs pick_empty)

lemma random_quality_quiet: "no_items w \<Longrightarrow> quiet (random_quality w b c msg render)"
  by (erule no_items_replies)
    (simp add: random_quality_def run_defs random_page_def random_randint_def)

lemma mode_5_quiet: "no_items w \<Longrightarrow> quiet (mode_5_random_quality w)"
  by (simp add: mode_5_random_quality_def random_quality_quiet)

lemma mode_8_quiet: "no_items w \<Longrightarrow> quiet (mode_8_netflix_tr_popular w)"
  by (erule no_items_replies) (simp add: mode_8_netflix_tr_popular_def run_defs pick_empty)

lemma mode_10_quiet: "no_items w \<Longrightarrow> quiet (mode_10_box_office_like w)"
  by (erule no_items_replies) (simp add: mode_10_box_office_like_def run_defs pick_empty)

lemma mode_13_quiet: "no_items w \<Longrightarrow> quiet (mode_13_trending_riser w)"
  by (erule no_items_replies) (simp add: mode_13_trending_riser_def run_defs pick_empty)

lemma mode_14_quiet: "no_items w \<Longrightarrow> quiet (mode_14_best_poster w)"
  by (erule no_items_replies) (simp add: mode_14_best_poster_def run_defs)

lemma mode_15_quiet: "no_items w \<Longrightarrow> quiet (mode_15_turkish_movies_popular w)"
  by (erule no_items_replies) (simp add: mode_15_turkish_movies_popular_def run_defs pick_empty)

lemma mode_16_quiet: "no_items w \<Longrightarrow> quiet (mode_16_classic_of_day w)"
  by (simp add: mode_16_classic_of_day_def random_quality_quiet)

lemma mode_17_quiet: "no_items w \<Longrightarrow> quiet (mode_17_hidden_gem w)"
  by (erule no_items_replies) (simp add: mode_17_hidden_gem_def hidden_gem_relax_def hidden_gem_draw_def run_defs)

text \<open>
  C9. When every query of the metadata service returns no item, every mode ends normally,
  with no exception, and sends no post.
\<close>

theorem empty_results_no_post:
  assumes "no_items w" "(key, func) \<in> set MODES"
  shows "snd (func w) = Inr () \<and> tweets_of (fst (func w)) = []"
proof -
  note q = mode_1_quiet mode_2_quiet mode_3_quiet mode_4_quiet mode_5_quiet mode_8_quiet
    mode_10_quiet mode_13_quiet mode_14_quiet mode_15_quiet mode_16_quiet mode_17_quiet
  from assms(2) have "quiet (func w)"
    unfolding MODES_def using q [OF assms(1)] by auto
  then show ?thesis by (simp add: quiet_def)
qed

lemma quiet_world_no_items: "no_items quiet_world"
  by (simp add: no_items_def quiet_world_def or_else_def)

theorem empty_results_no_post_witness:
  "no_items quiet_world \<and> (asc ''17'', mode_17_hidden_gem) \<in> set MODES
   \<and> snd (mode_17_hidden_gem quiet_world) = Inr ()
   \<and> tweets_of (fst (mode_17_hidden_gem quiet_world)) = []
   \<and> (asc ''3'', mode_3_new_release_today) \<in> set MODES
   \<and> snd (mode_3_new_release_today quiet_world) = Inr ()
   \<and> tweets_of (fst (mode_3_new_release_today quiet_world)) = []"
proof -
  have a: "(asc ''17'', mode_17_hidden_gem) \<in> set MODES" by (simp add: MODES_def)
  have b: "(asc ''3'', mode_3_new_release_today) \<in> set MODES" by (simp add: MODES_def)
  from empty_results_no_post [OF quiet_world_no_items a]
    empty_results_no_post [OF quiet_world_no_items b] quiet_world_no_items a b
  show ?thesis by blast
qed

end
